theory Spec2Isabelle
  imports Main "HOL-Library.Word"
begin

section \<open>Interrupt dispatch and IRQ routing (arc/intr/route.c)\<close>

text \<open>
  The model is sequential: one CPU runs one call to completion, so the reader/writer lock
  \<open>intr_route_lock\<close> and the interrupt mask guard, which every path takes and releases in
  pairs, do not appear. What the code does to the outside (the interrupt controller, the
  handlers) is recorded, in call order, in a trace.
\<close>

type_synonym intr_t = nat
type_synonym irq_t = "32 word"

text \<open>A handler is a function pointer; only its identity matters to the routing code.\<close>

type_synonym intr_handler_t = nat

datatype polarity = POLARITY_HIGH | POLARITY_LOW

datatype trigger_mode = TRIGGER_EDGE | TRIGGER_LEVEL

record irq_tuple_t =
  irq :: irq_t
  active_polarity :: polarity
  trigger :: trigger_mode

text \<open>
  One discovered I/O APIC. The enumeration returned by \<open>ioapic_iter\<close> and walked through
  \<open>apic->next\<close> is a list of these records, in discovery order.
\<close>

record ioapic_t =
  apic_id :: nat
  phy_addr :: "64 word"
  irq_base :: irq_t
  irqs :: irq_t

text \<open>
  The saved-state record handed to \<open>intr_dispatch\<close>; only the field \<open>id\<close> is read. Vector
  numbers are natural numbers here, and \<open>intr_t intr = state->id\<close> keeps the value.
\<close>

record intr_state_t =
  state_id :: intr_t

text \<open>
  The vector layout of \<open>arc/intr/common.h\<close>, which is not among the sources: the last fault
  vector, the spurious vector, the first IRQ vector and the size of the IRQ band. The functions
  below take it as a parameter.
\<close>

record intr_consts =
  FAULT31 :: intr_t
  SPURIOUS :: intr_t
  IRQ0 :: intr_t
  IRQS :: nat

datatype event =
    Ic_ack intr_t
  | Handler_call intr_handler_t intr_t
  | Ioapic_route ioapic_t irq_tuple_t intr_t
  | Ioapic_mask ioapic_t irq_tuple_t

text \<open>\<open>panic(fmt, ...)\<close> does not return; the model keeps the format string and its arguments.\<close>

datatype panic = Panic string "nat list"

text \<open>
  The routing state: the table \<open>intr_handlers\<close> (each chain of \<open>intr_handler_node_t\<close> as the
  list of its handlers, head first), the outcomes of the coming \<open>malloc\<close> calls, and the trace.
  The table is indexed without a bounds check in the code; here every index has a chain.
\<close>

record kstate =
  intr_handlers :: "intr_t \<Rightarrow> intr_handler_t list"
  malloc_script :: "bool list"
  trace :: "event list"

definition emit :: "event \<Rightarrow> kstate \<Rightarrow> kstate" where
  "emit e s = s\<lparr>trace := trace s @ [e]\<rparr>"

text \<open>
  Modelled from the spec: the chain node comes from the heap, and the allocation succeeds or
  returns null. \<open>malloc\<close> is not among the sources; its outcome is read from a script, and an
  exhausted script is an exhausted heap.
\<close>

definition malloc :: "kstate \<Rightarrow> bool \<times> kstate" where
  "malloc s = (case malloc_script s of
       [] \<Rightarrow> (False, s)
     | b # bs \<Rightarrow> (b, s\<lparr>malloc_script := bs\<rparr>))"

text \<open>
  Modelled from the spec: \<open>ic_ack(vector)\<close> signals EOI, \<open>ioapic_route(controller, tuple,
  vector)\<close> programs delivery, \<open>ioapic_mask(controller, tuple)\<close> silences a line. The drivers
  are not among the sources; a call is recorded with its arguments.
\<close>

definition ic_ack :: "intr_t \<Rightarrow> kstate \<Rightarrow> kstate" where
  "ic_ack intr s = emit (Ic_ack intr) s"

definition ioapic_route :: "ioapic_t \<Rightarrow> irq_tuple_t \<Rightarrow> intr_t \<Rightarrow> kstate \<Rightarrow> kstate" where
  "ioapic_route apic tuple intr s = emit (Ioapic_route apic tuple intr) s"

definition ioapic_mask :: "ioapic_t \<Rightarrow> irq_tuple_t \<Rightarrow> kstate \<Rightarrow> kstate" where
  "ioapic_mask apic tuple s = emit (Ioapic_mask apic tuple) s"

text \<open>\<open>(*handler)(state)\<close>: the handler is opaque and does not enter the routing table.\<close>

definition call_handler :: "intr_handler_t \<Rightarrow> intr_state_t \<Rightarrow> kstate \<Rightarrow> kstate" where
  "call_handler handler state s = emit (Handler_call handler (state_id state)) s"

text \<open>The loop of \<open>intr_dispatch\<close> over the chain, from \<open>head\<close> along \<open>node->next\<close>.\<close>

fun call_handlers :: "intr_handler_t list \<Rightarrow> intr_state_t \<Rightarrow> kstate \<Rightarrow> kstate" where
  "call_handlers [] state s = s"
| "call_handlers (handler # rest) state s = call_handlers rest state (call_handler handler state s)"

definition intr_dispatch ::
    "intr_consts \<Rightarrow> intr_state_t \<Rightarrow> kstate \<Rightarrow> panic \<times> kstate + kstate" where
  "intr_dispatch c state s =
     (let intr = state_id state;
          s1 = (if intr > FAULT31 c \<and> intr \<noteq> SPURIOUS c then ic_ack intr s else s);
          head = intr_handlers s1 (state_id state)
      in if head = []
         then Inl (Panic (''unhandled interrupt %d'' @ [CHR 0x0A]) [state_id state], s1)
         else Inr (call_handlers head state s1))"

text \<open>The state in which a dispatch ends, whether it returned or panicked.\<close>

definition dispatch_end :: "panic \<times> kstate + kstate \<Rightarrow> kstate" where
  "dispatch_end r = (case r of Inl (p, s) \<Rightarrow> s | Inr s \<Rightarrow> s)"

text \<open>\<open>_intr_route_intr\<close>: allocate a node, fill it in, cons it onto the chain.\<close>

definition intr_route_intr_inner ::
    "intr_t \<Rightarrow> intr_handler_t \<Rightarrow> kstate \<Rightarrow> bool \<times> kstate" where
  "intr_route_intr_inner intr handler s =
     (let (tail_node, s1) = malloc s
      in if \<not> tail_node then (False, s1)
         else (True, s1\<lparr>intr_handlers :=
                 (intr_handlers s1)(intr := handler # intr_handlers s1 intr)\<rparr>))"

text \<open>
  The loop of \<open>_intr_unroute_intr\<close>: the first node whose handler is the given one is
  unlinked (and freed); the walk stops there.
\<close>

fun unlink_handler :: "intr_handler_t \<Rightarrow> intr_handler_t list \<Rightarrow> intr_handler_t list" where
  "unlink_handler handler [] = []"
| "unlink_handler handler (h # rest) =
     (if h = handler then rest else h # unlink_handler handler rest)"

definition intr_unroute_intr_inner :: "intr_t \<Rightarrow> intr_handler_t \<Rightarrow> kstate \<Rightarrow> kstate" where
  "intr_unroute_intr_inner intr handler s =
     s\<lparr>intr_handlers := (intr_handlers s)(intr := unlink_handler handler (intr_handlers s intr))\<rparr>"

definition intr_route_intr :: "intr_t \<Rightarrow> intr_handler_t \<Rightarrow> kstate \<Rightarrow> bool \<times> kstate" where
  "intr_route_intr intr handler s = intr_route_intr_inner intr handler s"

definition intr_unroute_intr :: "intr_t \<Rightarrow> intr_handler_t \<Rightarrow> kstate \<Rightarrow> kstate" where
  "intr_unroute_intr intr handler s = intr_unroute_intr_inner intr handler s"

text \<open>
  The test both IRQ loops make on a controller: \<open>irq_first = apic->irq_base\<close>,
  \<open>irq_last = apic->irq_base + apic->irqs - 1\<close> in \<open>irq_t\<close> arithmetic, and
  \<open>irq >= irq_first && irq < irq_last\<close>.
\<close>

definition irq_belongs :: "ioapic_t \<Rightarrow> irq_t \<Rightarrow> bool" where
  "irq_belongs apic i =
     (let irq_first = irq_base apic;
          irq_last = irq_base apic + irqs apic - 1
      in i \<ge> irq_first \<and> i < irq_last)"

fun intr_route_irq_loop ::
    "ioapic_t list \<Rightarrow> irq_tuple_t \<Rightarrow> intr_t \<Rightarrow> intr_handler_t \<Rightarrow> kstate \<Rightarrow> bool \<times> kstate" where
  "intr_route_irq_loop [] tuple intr handler s = (False, s)"
| "intr_route_irq_loop (apic # rest) tuple intr handler s =
     (if irq_belongs apic (irq tuple)
      then (let (ok, s1) = intr_route_intr_inner intr handler s;
                s2 = ioapic_route apic tuple intr s1
            in (ok, s2))
      else intr_route_irq_loop rest tuple intr handler s)"

definition irq_vector :: "intr_consts \<Rightarrow> irq_t \<Rightarrow> intr_t" where
  "irq_vector c i = (unat i mod IRQS c) + IRQ0 c"

definition intr_route_irq ::
    "intr_consts \<Rightarrow> ioapic_t list \<Rightarrow> irq_tuple_t \<Rightarrow> intr_handler_t \<Rightarrow> kstate \<Rightarrow> bool \<times> kstate" where
  "intr_route_irq c apics tuple handler s =
     (let i = irq tuple;
          intr = irq_vector c i
      in intr_route_irq_loop apics tuple intr handler s)"

fun intr_unroute_irq_loop :: "ioapic_t list \<Rightarrow> irq_tuple_t \<Rightarrow> kstate \<Rightarrow> kstate" where
  "intr_unroute_irq_loop [] tuple s = s"
| "intr_unroute_irq_loop (apic # rest) tuple s =
     intr_unroute_irq_loop rest tuple
       (if irq_belongs apic (irq tuple) then ioapic_mask apic tuple s else s)"

definition intr_unroute_irq ::
    "intr_consts \<Rightarrow> ioapic_t list \<Rightarrow> irq_tuple_t \<Rightarrow> intr_handler_t \<Rightarrow> kstate \<Rightarrow> kstate" where
  "intr_unroute_irq c apics tuple handler s =
     (let i = irq tuple;
          intr = irq_vector c i;
          s1 = intr_unroute_irq_loop apics tuple s
      in intr_unroute_intr_inner intr handler s1)"

text \<open>
  The spec's ownership range of a controller record, the half-open range
  \<open>[irq_base, irq_base + irqs)\<close>, read in the natural numbers.
\<close>

definition owns_irq :: "ioapic_t \<Rightarrow> irq_t \<Rightarrow> bool" where
  "owns_irq apic i =
     (unat (irq_base apic) \<le> unat i \<and> unat i < unat (irq_base apic) + unat (irqs apic))"

section \<open>The kernel heap (arc/mm/heap.c)\<close>

type_synonym addr = "64 word"

text \<open>
  Modelled from the spec: a frame is one page. \<open>FRAME_SIZE\<close> is declared in a header that is
  not among the sources; the Makefile links the kernel with \<open>max-page-size=0x1000\<close>.
\<close>

definition FRAME_SIZE :: addr where
  "FRAME_SIZE = 0x1000"

text \<open>
  Modelled from the spec: the request is rounded up to a multiple of the page size
  (\<open>PAGE_ALIGN\<close> of \<open>arc/mm/align.h\<close>, not among the sources).
\<close>

definition PAGE_ALIGN :: "addr \<Rightarrow> addr" where
  "PAGE_ALIGN x = ((x + FRAME_SIZE - 1) div FRAME_SIZE) * FRAME_SIZE"

definition HEAP_NODE_FREE :: int where
  "HEAP_NODE_FREE = 0"

definition HEAP_NODE_RESERVED :: int where
  "HEAP_NODE_RESERVED = 1"

definition HEAP_NODE_ALLOCATED :: int where
  "HEAP_NODE_ALLOCATED = 2"

record heap_node =
  node_next :: addr
  node_prev :: addr
  node_state :: int
  node_start :: addr
  node_end :: addr

datatype heap_flag = HEAP_W | HEAP_X

datatype pg_flag = PG_WRITABLE | PG_NO_EXEC

text \<open>
  The heap and the two services under it. A node pointer is the virtual address of the node's
  header page, and \<open>node_mem\<close> is what memory holds there, read as a \<open>heap_node_t\<close>. \<open>vmm\<close> is the
  page table, keyed by page address; every pointer the heap follows is one. \<open>pmm_script\<close> holds
  the results of the coming \<open>pmm_alloc\<close> calls (0 is the null frame) and \<open>vmm_script\<close> the
  outcomes of the coming \<open>vmm_map\<close> calls; \<open>pmm_freed\<close> lists the arguments of the \<open>pmm_free\<close>
  calls made so far.
\<close>

record heap =
  heap_root :: addr
  node_mem :: "addr \<Rightarrow> heap_node"
  vmm :: "addr \<rightharpoonup> addr \<times> pg_flag set"
  pmm_script :: "addr list"
  vmm_script :: "bool list"
  pmm_freed :: "addr list"

text \<open>Reading or writing a node through a pointer to a page that is not mapped faults.\<close>

datatype fault = Page_fault addr

text \<open>
  Modelled from the spec: \<open>pmm_alloc()\<close> returns a physical frame address or null, and
  \<open>pmm_free(phy)\<close> reclaims one. An exhausted script is an exhausted allocator.
\<close>

definition pmm_alloc :: "heap \<Rightarrow> addr \<times> heap" where
  "pmm_alloc s = (case pmm_script s of
       [] \<Rightarrow> (0, s)
     | phy # rest \<Rightarrow> (phy, s\<lparr>pmm_script := rest\<rparr>))"

definition pmm_free :: "addr \<Rightarrow> heap \<Rightarrow> heap" where
  "pmm_free phy s = s\<lparr>pmm_freed := pmm_freed s @ [phy]\<rparr>"

text \<open>
  Modelled from the spec: \<open>vmm_map(virt, phy, flags)\<close> returns success, and
  \<open>vmm_unmap(virt)\<close> returns the previously mapped physical address or null. A call beyond
  the end of the script succeeds.
\<close>

definition vmm_map :: "addr \<Rightarrow> addr \<Rightarrow> pg_flag set \<Rightarrow> heap \<Rightarrow> bool \<times> heap" where
  "vmm_map virt phy flags s =
     (let ok = (case vmm_script s of [] \<Rightarrow> True | b # _ \<Rightarrow> b);
          s1 = s\<lparr>vmm_script := tl (vmm_script s)\<rparr>
      in if ok then (True, s1\<lparr>vmm := (vmm s1)(virt \<mapsto> (phy, flags))\<rparr>) else (False, s1))"

definition vmm_unmap :: "addr \<Rightarrow> heap \<Rightarrow> addr \<times> heap" where
  "vmm_unmap virt s = (case vmm s virt of
       None \<Rightarrow> (0, s)
     | Some (phy, flags) \<Rightarrow> (phy, s\<lparr>vmm := (vmm s)(virt := None)\<rparr>))"

definition load :: "addr \<Rightarrow> heap \<Rightarrow> fault \<times> heap + heap_node" where
  "load p s = (if vmm s p = None then Inl (Page_fault p, s) else Inr (node_mem s p))"

definition store :: "addr \<Rightarrow> (heap_node \<Rightarrow> heap_node) \<Rightarrow> heap \<Rightarrow> fault \<times> heap + heap" where
  "store p f s =
     (if vmm s p = None then Inl (Page_fault p, s)
      else Inr (s\<lparr>node_mem := (node_mem s)(p := f (node_mem s p))\<rparr>))"

text \<open>Sequencing: a fault ends the computation.\<close>

definition bind_f :: "fault \<times> heap + 'a \<Rightarrow> ('a \<Rightarrow> fault \<times> heap + 'b) \<Rightarrow> fault \<times> heap + 'b" where
  "bind_f r k = (case r of Inl e \<Rightarrow> Inl e | Inr x \<Rightarrow> k x)"

text \<open>
  The split inside \<open>find_node\<close>, entered when \<open>extra_size >= FRAME_SIZE * 2\<close>: take a frame,
  map it at \<open>node + size + FRAME_SIZE\<close>, fill in the new header and link it after \<open>node\<close>.
  Each assignment of the source is one \<open>store\<close>, each read through a pointer one \<open>load\<close>.
\<close>

definition find_node_split :: "addr \<Rightarrow> addr \<Rightarrow> heap \<Rightarrow> fault \<times> heap + heap" where
  "find_node_split sz node s =
     (let (phy, s1) = pmm_alloc s
      in if phy = 0 then Inr s1
         else
           let next = node + sz + FRAME_SIZE;
               (ok, s2) = vmm_map next phy {PG_WRITABLE, PG_NO_EXEC} s1
           in if \<not> ok then Inr s2
              else
                bind_f (store next (\<lambda>n. n\<lparr>node_start := node + sz + FRAME_SIZE * 2\<rparr>) s2) (\<lambda>s3.
                bind_f (load node s3) (\<lambda>nd.
                bind_f (store next (\<lambda>n. n\<lparr>node_end := node_end nd\<rparr>) s3) (\<lambda>s4.
                bind_f (store next (\<lambda>n. n\<lparr>node_state := HEAP_NODE_FREE\<rparr>) s4) (\<lambda>s5.
                bind_f (store next (\<lambda>n. n\<lparr>node_prev := node\<rparr>) s5) (\<lambda>s6.
                bind_f (load node s6) (\<lambda>nd.
                bind_f (store next (\<lambda>n. n\<lparr>node_next := node_next nd\<rparr>) s6) (\<lambda>s7.
                bind_f (store node (\<lambda>n. n\<lparr>node_end := next\<rparr>) s7) (\<lambda>s8.
                bind_f (store node (\<lambda>n. n\<lparr>node_next := next\<rparr>) s8) (\<lambda>s9.
                bind_f (load next s9) (\<lambda>nx.
                if node_next nx \<noteq> 0
                then store (node_next nx) (\<lambda>n. n\<lparr>node_prev := next\<rparr>) s9
                else Inr s9)))))))))))"

text \<open>
  The loop of \<open>find_node\<close>, standing at \<open>node\<close>. A walk that never ends (a cyclic list with no
  fitting node) has the value \<open>None\<close>.
\<close>

partial_function (option) find_node_from ::
    "addr \<Rightarrow> addr \<Rightarrow> heap \<Rightarrow> (fault \<times> heap + addr \<times> heap) option" where
  "find_node_from sz node s =
     (if node = 0 then Some (Inr (0, s))
      else case load node s of
          Inl e \<Rightarrow> Some (Inl e)
        | Inr nd \<Rightarrow>
            if node_state nd \<noteq> HEAP_NODE_FREE then find_node_from sz (node_next nd) s
            else
              let node_size = node_end nd - node_start nd
              in if node_size < sz then find_node_from sz (node_next nd) s
                 else
                   let extra_size = node_size - sz
                   in Some
                     (bind_f (if extra_size \<ge> FRAME_SIZE * 2 then find_node_split sz node s
                              else Inr s) (\<lambda>s1.
                      bind_f (store node (\<lambda>n. n\<lparr>node_state := HEAP_NODE_RESERVED\<rparr>) s1) (\<lambda>s2.
                      Inr (node, s2)))))"

definition find_node :: "addr \<Rightarrow> heap \<Rightarrow> (fault \<times> heap + addr \<times> heap) option" where
  "find_node sz s = find_node_from sz (heap_root s) s"

text \<open>One round of the loop of \<open>_heap_free\<close> over the payload pages.\<close>

definition heap_free_page :: "addr \<Rightarrow> heap \<Rightarrow> heap" where
  "heap_free_page page s =
     (let (phy, s1) = vmm_unmap page s
      in if phy \<noteq> 0 then pmm_free phy s1 else s1)"

text \<open>The loop itself; its bound \<open>node->end\<close> is read through the pointer in every round.\<close>

partial_function (option) heap_free_pages ::
    "addr \<Rightarrow> addr \<Rightarrow> heap \<Rightarrow> (fault \<times> heap + heap) option" where
  "heap_free_pages node page s =
     (case load node s of
        Inl e \<Rightarrow> Some (Inl e)
      | Inr nd \<Rightarrow>
          if page < node_end nd
          then heap_free_pages node (page + FRAME_SIZE) (heap_free_page page s)
          else Some (Inr s))"

text \<open>\<open>_heap_free\<close>, the block that coalesces with the next node.\<close>

definition heap_free_next :: "addr \<Rightarrow> addr \<Rightarrow> heap \<Rightarrow> fault \<times> heap + heap" where
  "heap_free_next node next s =
     (if next = 0 then Inr s
      else
        bind_f (load next s) (\<lambda>nx.
        if node_state nx \<noteq> HEAP_NODE_FREE then Inr s
        else
          bind_f (store node (\<lambda>n. n\<lparr>node_next := node_next nx\<rparr>) s) (\<lambda>s1.
          bind_f (load next s1) (\<lambda>nx1.
          bind_f (if node_next nx1 \<noteq> 0
                  then store (node_next nx1) (\<lambda>n. n\<lparr>node_prev := node\<rparr>) s1
                  else Inr s1) (\<lambda>s2.
          bind_f (load next s2) (\<lambda>nx2.
          bind_f (store node (\<lambda>n. n\<lparr>node_end := node_end nx2\<rparr>) s2) (\<lambda>s3.
          let (phy, s4) = vmm_unmap next s3
          in Inr (pmm_free phy s4))))))))"

text \<open>
  \<open>_heap_free\<close>, the block that coalesces with the previous node. Its last statement is the
  source's \<open>pmm_free(vmm_unmap((uintptr_t) next))\<close>, with the \<open>next\<close> read before the first
  block.
\<close>

definition heap_free_prev :: "addr \<Rightarrow> addr \<Rightarrow> heap \<Rightarrow> fault \<times> heap + heap" where
  "heap_free_prev node next s =
     bind_f (load node s) (\<lambda>nd.
     let prev = node_prev nd
     in if prev = 0 then Inr s
        else
          bind_f (load prev s) (\<lambda>pv.
          if node_state pv \<noteq> HEAP_NODE_FREE then Inr s
          else
            bind_f (load node s) (\<lambda>nd1.
            bind_f (store prev (\<lambda>n. n\<lparr>node_next := node_next nd1\<rparr>) s) (\<lambda>s1.
            bind_f (load node s1) (\<lambda>nd2.
            bind_f (if node_next nd2 \<noteq> 0
                    then store (node_next nd2) (\<lambda>n. n\<lparr>node_prev := prev\<rparr>) s1
                    else Inr s1) (\<lambda>s2.
            bind_f (load node s2) (\<lambda>nd3.
            bind_f (store prev (\<lambda>n. n\<lparr>node_end := node_end nd3\<rparr>) s2) (\<lambda>s3.
            let (phy, s4) = vmm_unmap next s3
            in Inr (pmm_free phy s4)))))))))"

text \<open>\<open>_heap_free\<close>: the header is one frame below the pointer it is given.\<close>

definition heap_free_inner :: "addr \<Rightarrow> heap \<Rightarrow> (fault \<times> heap + heap) option" where
  "heap_free_inner ptr s =
     (let node = ptr - FRAME_SIZE
      in case load node s of
           Inl e \<Rightarrow> Some (Inl e)
         | Inr nd \<Rightarrow>
             (case (if node_state nd = HEAP_NODE_ALLOCATED
                    then heap_free_pages node (node_start nd) s
                    else Some (Inr s)) of
                None \<Rightarrow> None
              | Some r \<Rightarrow> Some
                  (bind_f r (\<lambda>s1.
                   bind_f (store node (\<lambda>n. n\<lparr>node_state := HEAP_NODE_FREE\<rparr>) s1) (\<lambda>s2.
                   bind_f (load node s2) (\<lambda>nd2.
                   let next = node_next nd2
                   in bind_f (heap_free_next node next s2) (\<lambda>s3.
                      heap_free_prev node next s3)))))))"

text \<open>The roll-back of \<open>_heap_alloc\<close>: the source's \<open>_heap_free(node); return 0;\<close>.\<close>

definition heap_alloc_rollback ::
    "addr \<Rightarrow> heap \<Rightarrow> (fault \<times> heap + addr \<times> heap) option" where
  "heap_alloc_rollback node s =
     (case heap_free_inner node s of
        None \<Rightarrow> None
      | Some (Inl e) \<Rightarrow> Some (Inl e)
      | Some (Inr s1) \<Rightarrow> Some (Inr (0, s1)))"

text \<open>The loop of \<open>_heap_alloc\<close> that backs the payload pages with frames.\<close>

partial_function (option) heap_alloc_pages ::
    "addr \<Rightarrow> pg_flag set \<Rightarrow> addr \<Rightarrow> addr \<Rightarrow> heap \<Rightarrow> (fault \<times> heap + addr \<times> heap) option" where
  "heap_alloc_pages node map_flags end_addr page s =
     (if page < end_addr
      then
        (let (phy, s1) = pmm_alloc s
         in if phy = 0 then heap_alloc_rollback node s1
            else
              let (ok, s2) = vmm_map page phy map_flags s1
              in if \<not> ok then heap_alloc_rollback node s2
                 else heap_alloc_pages node map_flags end_addr (page + FRAME_SIZE) s2)
      else Some (Inr (node + FRAME_SIZE, s)))"

definition heap_alloc_inner ::
    "addr \<Rightarrow> heap_flag set \<Rightarrow> bool \<Rightarrow> heap \<Rightarrow> (fault \<times> heap + addr \<times> heap) option" where
  "heap_alloc_inner sz0 flags phy_alloc s =
     (let sz = PAGE_ALIGN sz0
      in case find_node sz s of
           None \<Rightarrow> None
         | Some (Inl e) \<Rightarrow> Some (Inl e)
         | Some (Inr (node, s1)) \<Rightarrow>
             if node = 0 then Some (Inr (node, s1))
             else if phy_alloc
             then
               (case store node (\<lambda>n. n\<lparr>node_state := HEAP_NODE_ALLOCATED\<rparr>) s1 of
                  Inl e \<Rightarrow> Some (Inl e)
                | Inr s2 \<Rightarrow>
                    let map_flags = (if HEAP_W \<in> flags then {PG_WRITABLE} else {})
                                  \<union> (if HEAP_X \<notin> flags then {PG_NO_EXEC} else {})
                    in case load node s2 of
                         Inl e \<Rightarrow> Some (Inl e)
                       | Inr nd \<Rightarrow>
                           heap_alloc_pages node map_flags (node_start nd + sz)
                             (node_start nd) s2)
             else Some (Inr (node + FRAME_SIZE, s1)))"

text \<open>The public entry points take \<open>heap_lock\<close> around the inner functions.\<close>

definition heap_reserve :: "addr \<Rightarrow> heap \<Rightarrow> (fault \<times> heap + addr \<times> heap) option" where
  "heap_reserve sz s = heap_alloc_inner sz {} False s"

definition heap_alloc ::
    "addr \<Rightarrow> heap_flag set \<Rightarrow> heap \<Rightarrow> (fault \<times> heap + addr \<times> heap) option" where
  "heap_alloc sz flags s = heap_alloc_inner sz flags True s"

definition heap_free :: "addr \<Rightarrow> heap \<Rightarrow> (fault \<times> heap + heap) option" where
  "heap_free ptr s = heap_free_inner ptr s"

text \<open>
  The walk of \<open>find_node\<close> that starts at \<open>p\<close> passes over the nodes \<open>qs\<close>, each of them
  mapped and either not free or too small for \<open>sz\<close>, and then stands at \<open>node\<close>.
\<close>

fun find_node_passes :: "addr \<Rightarrow> heap \<Rightarrow> addr \<Rightarrow> addr list \<Rightarrow> addr \<Rightarrow> bool" where
  "find_node_passes sz s p [] node = (p = node)"
| "find_node_passes sz s p (q # qs) node =
     (p = q \<and> q \<noteq> 0 \<and> vmm s q \<noteq> None \<and>
      (node_state (node_mem s q) \<noteq> HEAP_NODE_FREE \<or>
       node_end (node_mem s q) - node_start (node_mem s q) < sz) \<and>
      find_node_passes sz s (node_next (node_mem s q)) qs node)"

section \<open>Concrete states\<close>

text \<open>The vector layout of the spec's scenarios: \<open>IRQ0 = 0x20\<close>, \<open>IRQS = 224\<close>.\<close>

definition ex_consts :: intr_consts where
  "ex_consts = \<lparr>FAULT31 = 31, SPURIOUS = 255, IRQ0 = 32, IRQS = 224\<rparr>"

text \<open>One I/O APIC owning the lines 0 to 23.\<close>

definition ex_apic :: ioapic_t where
  "ex_apic = \<lparr>apic_id = 0, phy_addr = 0xFEC00000, irq_base = 0, irqs = 24\<rparr>"

definition ex_tuple :: "irq_t \<Rightarrow> irq_tuple_t" where
  "ex_tuple i = \<lparr>irq = i, active_polarity = POLARITY_HIGH, trigger = TRIGGER_EDGE\<rparr>"

text \<open>No handler anywhere; \<open>malloc\<close> will succeed three times.\<close>

definition ex_idle :: kstate where
  "ex_idle = \<lparr>intr_handlers = (\<lambda>_. []), malloc_script = [True, True, True], trace = []\<rparr>"

text \<open>Handler 7 alone on vector \<open>v\<close>; the heap is exhausted.\<close>

definition ex_routed :: "intr_t \<Rightarrow> kstate" where
  "ex_routed v = \<lparr>intr_handlers = (\<lambda>_. [])(v := [7]), malloc_script = [], trace = []\<rparr>"

definition ex_blank :: heap_node where
  "ex_blank = \<lparr>node_next = 0, node_prev = 0, node_state = 0, node_start = 0, node_end = 0\<rparr>"

text \<open>
  Three nodes: headers at \<open>0x200000\<close>, \<open>0x203000\<close> and \<open>0x206000\<close> on the frames \<open>0x1000\<close>,
  \<open>0x2000\<close> and \<open>0x3000\<close>. The middle node is ALLOCATED, its two payload pages are on the
  frames \<open>0xA000\<close> and \<open>0xB000\<close>; its neighbours are FREE.
\<close>

definition ex_three :: heap where
  "ex_three =
     \<lparr>heap_root = 0x200000,
      node_mem = (\<lambda>_. ex_blank)
        (0x200000 := \<lparr>node_next = 0x203000, node_prev = 0, node_state = HEAP_NODE_FREE,
                      node_start = 0x201000, node_end = 0x203000\<rparr>,
         0x203000 := \<lparr>node_next = 0x206000, node_prev = 0x200000,
                      node_state = HEAP_NODE_ALLOCATED,
                      node_start = 0x204000, node_end = 0x206000\<rparr>,
         0x206000 := \<lparr>node_next = 0, node_prev = 0x203000, node_state = HEAP_NODE_FREE,
                      node_start = 0x207000, node_end = 0x210000\<rparr>),
      vmm = [0x200000 \<mapsto> (0x1000, {PG_WRITABLE, PG_NO_EXEC}),
             0x203000 \<mapsto> (0x2000, {PG_WRITABLE, PG_NO_EXEC}),
             0x206000 \<mapsto> (0x3000, {PG_WRITABLE, PG_NO_EXEC}),
             0x204000 \<mapsto> (0xA000, {PG_WRITABLE, PG_NO_EXEC}),
             0x205000 \<mapsto> (0xB000, {PG_WRITABLE, PG_NO_EXEC})],
      pmm_script = [], vmm_script = [], pmm_freed = []\<rparr>"

text \<open>
  A heap as \<open>heap_init\<close> leaves it, with two payload pages: the root header at \<open>0x200000\<close>
  on the frame \<open>0x1000\<close>. \<open>pmm_alloc\<close> will return the frame \<open>0x2000\<close> and then null.
\<close>

definition ex_fresh :: heap where
  "ex_fresh =
     \<lparr>heap_root = 0x200000,
      node_mem = (\<lambda>_. ex_blank)
        (0x200000 := \<lparr>node_next = 0, node_prev = 0, node_state = HEAP_NODE_FREE,
                      node_start = 0x201000, node_end = 0x203000\<rparr>),
      vmm = [0x200000 \<mapsto> (0x1000, {PG_WRITABLE, PG_NO_EXEC})],
      pmm_script = [0x2000, 0], vmm_script = [], pmm_freed = []\<rparr>"

text \<open>
  Two nodes over sixteen pages: a RESERVED node of four pages at \<open>0x200000\<close> and a FREE node
  of eleven pages at \<open>0x205000\<close>. The scripts of \<open>pmm_alloc\<close> and \<open>vmm_map\<close> are parameters.
\<close>

definition ex_two :: "addr list \<Rightarrow> bool list \<Rightarrow> heap" where
  "ex_two frames maps =
     \<lparr>heap_root = 0x200000,
      node_mem = (\<lambda>_. ex_blank)
        (0x200000 := \<lparr>node_next = 0x205000, node_prev = 0, node_state = HEAP_NODE_RESERVED,
                      node_start = 0x201000, node_end = 0x205000\<rparr>,
         0x205000 := \<lparr>node_next = 0, node_prev = 0x200000, node_state = HEAP_NODE_FREE,
                      node_start = 0x206000, node_end = 0x211000\<rparr>),
      vmm = [0x200000 \<mapsto> (0x1000, {PG_WRITABLE, PG_NO_EXEC}),
             0x205000 \<mapsto> (0x2000, {PG_WRITABLE, PG_NO_EXEC})],
      pmm_script = frames, vmm_script = maps, pmm_freed = []\<rparr>"

text \<open>
  Two nodes and no room to split: an ALLOCATED node of four pages at \<open>0x200000\<close>, its last
  payload page \<open>0x204000\<close> on the frame \<open>0xC000\<close> and holding zeroes, and a FREE node of two
  pages at \<open>0x205000\<close>. \<open>pmm_alloc\<close> will return the frame \<open>0x5000\<close> and then null.
\<close>

definition ex_pair :: heap where
  "ex_pair =
     \<lparr>heap_root = 0x200000,
      node_mem = (\<lambda>_. ex_blank)
        (0x200000 := \<lparr>node_next = 0x205000, node_prev = 0, node_state = HEAP_NODE_ALLOCATED,
                      node_start = 0x201000, node_end = 0x205000\<rparr>,
         0x205000 := \<lparr>node_next = 0, node_prev = 0x200000, node_state = HEAP_NODE_FREE,
                      node_start = 0x206000, node_end = 0x208000\<rparr>),
      vmm = [0x200000 \<mapsto> (0x1000, {PG_WRITABLE, PG_NO_EXEC}),
             0x205000 \<mapsto> (0x2000, {PG_WRITABLE, PG_NO_EXEC}),
             0x204000 \<mapsto> (0xC000, {PG_WRITABLE, PG_NO_EXEC})],
      pmm_script = [0x5000, 0], vmm_script = [], pmm_freed = []\<rparr>"

text \<open>Vector 64 with the chain \<open>hs\<close>, and the outcomes \<open>ms\<close> of the coming allocations.\<close>

definition ex_chain :: "bool list \<Rightarrow> intr_handler_t list \<Rightarrow> kstate" where
  "ex_chain ms hs = \<lparr>intr_handlers = (\<lambda>_. [])(64 := hs), malloc_script = ms, trace = []\<rparr>"

text \<open>A second I/O APIC, owning the lines 256 to 319, and a record that owns no line.\<close>

definition ex_apic_hi :: ioapic_t where
  "ex_apic_hi = \<lparr>apic_id = 1, phy_addr = 0xFEC01000, irq_base = 256, irqs = 64\<rparr>"

definition ex_empty :: ioapic_t where
  "ex_empty = \<lparr>apic_id = 2, phy_addr = 0xFEC02000, irq_base = 0, irqs = 0\<rparr>"

text \<open>The chain \<open>hs\<close> on vector \<open>v\<close>, and the outcomes \<open>ms\<close> of the coming allocations.\<close>

definition ex_on :: "intr_t \<Rightarrow> intr_handler_t list \<Rightarrow> bool list \<Rightarrow> kstate" where
  "ex_on v hs ms = \<lparr>intr_handlers = (\<lambda>_. [])(v := hs), malloc_script = ms, trace = []\<rparr>"

text \<open>
  Heaps written out as lists: the headers with their addresses, the mapped pages with their
  frames (all writable and not executable), the frames \<open>pmm_alloc\<close> will return, and the
  frames returned so far. The root is at \<open>0x200000\<close>.
\<close>

definition ex_node :: "addr \<Rightarrow> addr \<Rightarrow> int \<Rightarrow> addr \<Rightarrow> addr \<Rightarrow> heap_node" where
  "ex_node nxt prv st a b =
     \<lparr>node_next = nxt, node_prev = prv, node_state = st, node_start = a, node_end = b\<rparr>"

definition ex_heap ::
    "(addr \<times> heap_node) list \<Rightarrow> (addr \<times> addr) list \<Rightarrow> addr list \<Rightarrow> addr list \<Rightarrow> heap" where
  "ex_heap nodes pages frames freed =
     \<lparr>heap_root = 0x200000,
      node_mem = (\<lambda>p. case map_of nodes p of None \<Rightarrow> ex_blank | Some n \<Rightarrow> n),
      vmm = map_of (map (\<lambda>(v, f). (v, (f, {PG_WRITABLE, PG_NO_EXEC}))) pages),
      pmm_script = frames, vmm_script = [], pmm_freed = freed\<rparr>"

text \<open>
  A heap as \<open>heap_init\<close> leaves it, with sixteen payload pages, and the states that five
  calls lead it through: \<open>heap_alloc\<close> of two pages, \<open>heap_alloc\<close> of two pages,
  \<open>heap_reserve\<close> of nine pages, \<open>heap_free\<close> of the first allocation and \<open>heap_free\<close> of
  the second. The headers are A at \<open>0x200000\<close>, B at \<open>0x203000\<close> and C at \<open>0x206000\<close>.
\<close>

definition ex_boot :: heap where
  "ex_boot =
     ex_heap [(0x200000, ex_node 0 0 HEAP_NODE_FREE 0x201000 0x211000)]
       [(0x200000, 0x1000)]
       [0x2000, 0x3000, 0x4000, 0x5000, 0x6000, 0x7000, 0x8000] []"

definition ex_alloc_a :: heap where
  "ex_alloc_a =
     ex_heap [(0x200000, ex_node 0x203000 0 HEAP_NODE_ALLOCATED 0x201000 0x203000),
              (0x203000, ex_node 0 0x200000 HEAP_NODE_FREE 0x204000 0x211000)]
       [(0x200000, 0x1000), (0x203000, 0x2000), (0x201000, 0x3000), (0x202000, 0x4000)]
       [0x5000, 0x6000, 0x7000, 0x8000] []"

definition ex_alloc_b :: heap where
  "ex_alloc_b =
     ex_heap [(0x200000, ex_node 0x203000 0 HEAP_NODE_ALLOCATED 0x201000 0x203000),
              (0x203000, ex_node 0x206000 0x200000 HEAP_NODE_ALLOCATED 0x204000 0x206000),
              (0x206000, ex_node 0 0x203000 HEAP_NODE_FREE 0x207000 0x211000)]
       [(0x200000, 0x1000), (0x203000, 0x2000), (0x201000, 0x3000), (0x202000, 0x4000),
        (0x206000, 0x5000), (0x204000, 0x6000), (0x205000, 0x7000)]
       [0x8000] []"

definition ex_reserve_c :: heap where
  "ex_reserve_c =
     ex_heap [(0x200000, ex_node 0x203000 0 HEAP_NODE_ALLOCATED 0x201000 0x203000),
              (0x203000, ex_node 0x206000 0x200000 HEAP_NODE_ALLOCATED 0x204000 0x206000),
              (0x206000, ex_node 0 0x203000 HEAP_NODE_RESERVED 0x207000 0x211000)]
       [(0x200000, 0x1000), (0x203000, 0x2000), (0x201000, 0x3000), (0x202000, 0x4000),
        (0x206000, 0x5000), (0x204000, 0x6000), (0x205000, 0x7000)]
       [0x8000] []"

definition ex_free_a :: heap where
  "ex_free_a =
     ex_heap [(0x200000, ex_node 0x203000 0 HEAP_NODE_FREE 0x201000 0x203000),
              (0x203000, ex_node 0x206000 0x200000 HEAP_NODE_ALLOCATED 0x204000 0x206000),
              (0x206000, ex_node 0 0x203000 HEAP_NODE_RESERVED 0x207000 0x211000)]
       [(0x200000, 0x1000), (0x203000, 0x2000),
        (0x206000, 0x5000), (0x204000, 0x6000), (0x205000, 0x7000)]
       [0x8000] [0x3000, 0x4000]"

text \<open>
  After the second \<open>heap_free\<close>: B is merged into A, whose successor is now C, and the page
  that was unmapped is the header of C, a RESERVED node, while the header of B stays mapped.
\<close>

definition ex_free_b :: heap where
  "ex_free_b =
     ex_heap [(0x200000, ex_node 0x206000 0 HEAP_NODE_FREE 0x201000 0x206000),
              (0x203000, ex_node 0x206000 0x200000 HEAP_NODE_FREE 0x204000 0x206000),
              (0x206000, ex_node 0 0x200000 HEAP_NODE_RESERVED 0x207000 0x211000)]
       [(0x200000, 0x1000), (0x203000, 0x2000)]
       [0x8000] [0x3000, 0x4000, 0x6000, 0x7000, 0x5000]"

text \<open>
  Where the split of A for a request of one page stops in that state: the new header at
  \<open>0x202000\<close> is mapped and filled in and A points to it, but A is still FREE.
\<close>

definition ex_fault :: heap where
  "ex_fault =
     ex_heap [(0x200000, ex_node 0x202000 0 HEAP_NODE_FREE 0x201000 0x202000),
              (0x202000, ex_node 0x206000 0x200000 HEAP_NODE_FREE 0x203000 0x206000),
              (0x203000, ex_node 0x206000 0x200000 HEAP_NODE_FREE 0x204000 0x206000),
              (0x206000, ex_node 0 0x200000 HEAP_NODE_RESERVED 0x207000 0x211000)]
       [(0x200000, 0x1000), (0x203000, 0x2000), (0x202000, 0x8000)]
       [] [0x3000, 0x4000, 0x6000, 0x7000, 0x5000]"

text \<open>
  The state \<open>ex_free_b\<close> with the header of C mapped, as it would be had \<open>_heap_free\<close>
  unmapped the header of the node it merged away.
\<close>

definition ex_sound :: heap where
  "ex_sound =
     ex_heap [(0x200000, ex_node 0x206000 0 HEAP_NODE_FREE 0x201000 0x206000),
              (0x206000, ex_node 0 0x200000 HEAP_NODE_RESERVED 0x207000 0x211000)]
       [(0x200000, 0x1000), (0x206000, 0x5000)]
       [0x8000] [0x3000, 0x4000, 0x6000, 0x7000, 0x2000]"

section \<open>Interrupt dispatch and routing: lemmas\<close>

lemma call_handlers_trace:
  "call_handlers hs st s = s\<lparr>trace := trace s @ map (\<lambda>h. Handler_call h (state_id st)) hs\<rparr>"
  by (induction hs arbitrary: s) (simp_all add: call_handler_def emit_def)

lemma intr_route_intr_True:
  "intr_route_intr v h s = (True, s') \<Longrightarrow>
     s' = s\<lparr>malloc_script := tl (malloc_script s),
            intr_handlers := (intr_handlers s)(v := h # intr_handlers s v)\<rparr>"
  by (auto simp: intr_route_intr_def intr_route_intr_inner_def malloc_def
           split: list.splits if_splits)

lemma route_loop_find:
  "intr_route_irq_loop apics t v h s =
     (case find (\<lambda>a. irq_belongs a (irq t)) apics of
        None \<Rightarrow> (False, s)
      | Some a \<Rightarrow> (fst (intr_route_intr_inner v h s),
                   ioapic_route a t v (snd (intr_route_intr_inner v h s))))"
  by (induction apics) (simp_all add: split_def Let_def)

lemma unroute_loop_trace:
  "intr_unroute_irq_loop apics t s =
     s\<lparr>trace := trace s @ map (\<lambda>a. Ioapic_mask a t) (filter (\<lambda>a. irq_belongs a (irq t)) apics)\<rparr>"
  by (induction apics arbitrary: s) (simp_all add: ioapic_mask_def emit_def)

text \<open>
  The order of the two IRQ paths. Where a controller passes the test, \<open>intr_route_irq\<close>
  runs \<open>_intr_route_intr\<close> first and calls \<open>ioapic_route\<close> on the state that leaves, whatever
  the allocation returned. \<open>intr_unroute_irq\<close> runs \<open>_intr_unroute_intr\<close> on the state in
  which every controller that passes the test has been masked.
\<close>

lemma intr_route_irq_order:
  assumes "find (\<lambda>a. irq_belongs a (irq t)) apics = Some a"
  shows "intr_route_irq c apics t h s =
     (fst (intr_route_intr_inner (irq_vector c (irq t)) h s),
      ioapic_route a t (irq_vector c (irq t))
        (snd (intr_route_intr_inner (irq_vector c (irq t)) h s)))"
  using assms by (simp add: intr_route_irq_def Let_def route_loop_find)

lemma intr_unroute_irq_order:
  "intr_unroute_irq c apics t h s =
     intr_unroute_intr_inner (irq_vector c (irq t)) h
       (s\<lparr>trace := trace s
            @ map (\<lambda>a. Ioapic_mask a t) (filter (\<lambda>a. irq_belongs a (irq t)) apics)\<rparr>)"
  by (simp add: intr_unroute_irq_def Let_def unroute_loop_trace)

text \<open>
  A line that passes the code's test lies in the controller's half-open range, unless the
  record claims no line at all: with \<open>irqs = 0\<close> the subtraction in \<open>irq_last\<close> wraps around.
\<close>

lemma belongs_owns:
  assumes nz: "irqs a \<noteq> 0" and b: "irq_belongs a i"
  shows "owns_irq a i"
proof -
  from b have lo: "irq_base a \<le> i" and hi: "i < irq_base a + irqs a - 1"
    by (simp_all add: irq_belongs_def Let_def)
  have "unat (irq_base a + irqs a - 1) = unat (irq_base a + (irqs a - 1))"
    by (simp add: algebra_simps)
  also have "\<dots> \<le> unat (irq_base a) + unat (irqs a - 1)"
    by (simp add: unat_word_ariths)
  also have "unat (irqs a - 1) = unat (irqs a) - 1"
    using nz by (simp add: unat_minus_one)
  finally have "unat (irq_base a + irqs a - 1) \<le> unat (irq_base a) + (unat (irqs a) - 1)" .
  moreover have "0 < unat (irqs a)" using nz by (simp add: unat_gt_0)
  moreover have "unat i < unat (irq_base a + irqs a - 1)" using hi by (simp add: word_less_nat_alt)
  moreover have "unat (irq_base a) \<le> unat i" using lo by (simp add: word_le_nat_alt)
  ultimately show ?thesis by (simp add: owns_irq_def)
qed

lemma find_Some_mem: "find P xs = Some a \<Longrightarrow> a \<in> set xs \<and> P a"
  by (induction xs) (auto split: if_splits)

lemma unlink_absent: "h \<notin> set hs \<Longrightarrow> unlink_handler h hs = hs"
  by (induction hs) auto

text \<open>The walk of \<open>_intr_unroute_intr\<close> removes the first occurrence and no other.\<close>

lemma unlink_handler_remove1: "unlink_handler h hs = remove1 h hs"
  by (induction hs) auto

section \<open>Kernel heap: lemmas\<close>

lemma find_node_from_skip:
  assumes "q \<noteq> 0" "vmm s q \<noteq> None"
    "node_state (node_mem s q) \<noteq> HEAP_NODE_FREE \<or>
       node_end (node_mem s q) - node_start (node_mem s q) < sz"
  shows "find_node_from sz q s = find_node_from sz (node_next (node_mem s q)) s"
  using assms by (subst find_node_from.simps) (auto simp: load_def Let_def)

lemma find_node_from_passes:
  "find_node_passes sz s p qs node \<Longrightarrow> find_node_from sz p s = find_node_from sz node s"
proof (induction qs arbitrary: p)
  case Nil
  then show ?case by simp
next
  case (Cons q qs)
  then have "find_node_from sz p s = find_node_from sz (node_next (node_mem s q)) s"
    by (simp add: find_node_from_skip)
  with Cons show ?case by simp
qed

lemma find_node_from_fit:
  assumes "node \<noteq> 0" "vmm s node \<noteq> None"
    "node_state (node_mem s node) = HEAP_NODE_FREE"
    "sz \<le> node_end (node_mem s node) - node_start (node_mem s node)"
  shows "find_node_from sz node s = Some
     (bind_f (if node_end (node_mem s node) - node_start (node_mem s node) - sz \<ge> FRAME_SIZE * 2
              then find_node_split sz node s else Inr s) (\<lambda>s1.
      bind_f (store node (\<lambda>n. n\<lparr>node_state := HEAP_NODE_RESERVED\<rparr>) s1) (\<lambda>s2.
      Inr (node, s2))))"
  using assms by (subst find_node_from.simps) (auto simp: load_def Let_def)

lemma pmm_alloc_keeps:
  "vmm (snd (pmm_alloc s)) = vmm s" "node_mem (snd (pmm_alloc s)) = node_mem s"
  by (simp_all add: pmm_alloc_def split: list.splits)

lemma vmm_map_fail_keeps:
  "\<not> fst (vmm_map v p fl s) \<Longrightarrow> vmm (snd (vmm_map v p fl s)) = vmm s"
  "node_mem (snd (vmm_map v p fl s)) = node_mem s"
  by (auto simp: vmm_map_def Let_def split: list.splits)

lemma vmm_map_ok:
  "fst (vmm_map v p fl s) \<Longrightarrow> vmm (snd (vmm_map v p fl s)) = (vmm s)(v \<mapsto> (p, fl))"
  by (simp add: vmm_map_def Let_def split: if_splits)

lemma split_no_frame:
  assumes "fst (pmm_alloc s) = 0"
  shows "find_node_split sz node s = Inr (snd (pmm_alloc s))"
  using assms by (simp add: find_node_split_def split_def)

lemma split_no_map:
  assumes "fst (pmm_alloc s) \<noteq> 0"
    "\<not> fst (vmm_map (node + sz + FRAME_SIZE) (fst (pmm_alloc s)) {PG_WRITABLE, PG_NO_EXEC}
             (snd (pmm_alloc s)))"
  shows "find_node_split sz node s =
     Inr (snd (vmm_map (node + sz + FRAME_SIZE) (fst (pmm_alloc s)) {PG_WRITABLE, PG_NO_EXEC}
                (snd (pmm_alloc s))))"
  using assms by (simp add: find_node_split_def split_def Let_def)

lemma split_ok:
  fixes node sz s
  defines "new \<equiv> node + sz + FRAME_SIZE"
  defines "nd \<equiv> node_mem s node"
  defines "phy \<equiv> fst (pmm_alloc s)"
  defines "s2 \<equiv> snd (vmm_map new phy {PG_WRITABLE, PG_NO_EXEC} (snd (pmm_alloc s)))"
  assumes mp: "vmm s node \<noteq> None"
    and ok: "phy \<noteq> 0" "fst (vmm_map new phy {PG_WRITABLE, PG_NO_EXEC} (snd (pmm_alloc s)))"
    and dist: "new \<noteq> node" "node_next nd \<noteq> node" "node_next nd \<noteq> new"
    and mnx: "node_next nd \<noteq> 0 \<longrightarrow> vmm s (node_next nd) \<noteq> None"
  shows "find_node_split sz node s =
     Inr (s2\<lparr>node_mem :=
        (let m = (node_mem s)
             (new := \<lparr>node_next = node_next nd, node_prev = node, node_state = HEAP_NODE_FREE,
                      node_start = node + sz + FRAME_SIZE * 2, node_end = node_end nd\<rparr>,
              node := nd\<lparr>node_end := new, node_next := new\<rparr>)
         in if node_next nd = 0 then m
            else m(node_next nd := (node_mem s (node_next nd))\<lparr>node_prev := new\<rparr>))\<rparr>)"
proof -
  have v2: "vmm s2 = (vmm s)(new \<mapsto> (phy, {PG_WRITABLE, PG_NO_EXEC}))"
    unfolding s2_def using ok(2) by (simp add: vmm_map_ok pmm_alloc_keeps)
  have m2: "node_mem s2 = node_mem s"
    unfolding s2_def by (simp add: vmm_map_fail_keeps pmm_alloc_keeps)
  show ?thesis
    using mp ok dist mnx v2 m2
    unfolding find_node_split_def
    apply (simp add: split_def Let_def new_def [symmetric] phy_def [symmetric] s2_def [symmetric])
    apply (simp add: store_def load_def bind_f_def nd_def [symmetric])
    apply (auto simp: fun_eq_iff)
    done
qed

lemma bind_f_Inr: "bind_f r k = Inr y \<longleftrightarrow> (\<exists>x. r = Inr x \<and> k x = Inr y)"
  by (cases r) (simp_all add: bind_f_def)

lemma store_vmm: "store p f s = Inr s' \<Longrightarrow> vmm s' = vmm s"
  by (auto simp: store_def split: if_splits)

lemma unmap_free_vmm:
  "vmm (pmm_free (fst (vmm_unmap q s)) (snd (vmm_unmap q s))) = (vmm s)(q := None)"
  by (auto simp: vmm_unmap_def pmm_free_def split: option.splits)

text \<open>
  The block of \<open>_heap_free\<close> that merges a node into its previous neighbour never unmaps the
  header page of that node.
\<close>

lemma heap_free_prev_keeps_node:
  assumes r: "heap_free_prev node next s = Inr s'" and d: "next \<noteq> node"
  shows "vmm s' node = vmm s node"
proof -
  from r have "vmm s' = vmm s \<or> vmm s' = (vmm s)(next := None)"
    unfolding heap_free_prev_def
    by (auto simp: bind_f_Inr Let_def split_def unmap_free_vmm split: if_splits
        dest!: store_vmm)
  with d show ?thesis by auto
qed

lemmas heap_ops =
  load_def store_def bind_f_def vmm_unmap_def vmm_map_def pmm_alloc_def pmm_free_def
  heap_free_page_def HEAP_NODE_FREE_def HEAP_NODE_ALLOCATED_def HEAP_NODE_RESERVED_def
  FRAME_SIZE_def

lemmas heap_eval =
  heap_alloc_def heap_reserve_def heap_free_def heap_alloc_inner_def heap_free_inner_def
  find_node_def find_node_from.simps find_node_split_def heap_alloc_pages.simps
  heap_free_pages.simps heap_alloc_rollback_def heap_free_next_def heap_free_prev_def
  PAGE_ALIGN_def heap_ops ex_heap_def ex_node_def ex_blank_def

text \<open>
  What \<open>find_node\<close> does at a mapped FREE node that fits the request and has
  \<open>extra >= 2 * FRAME_SIZE\<close>. If \<open>pmm_alloc\<close> gives a frame and \<open>vmm_map\<close> maps it at
  \<open>node + size + FRAME_SIZE\<close>, and that address, the node and its successor are different
  headers, the successor's mapped, \<open>find_node\<close> returns the node with a new FREE node over
  \<open>[node + size + 2 * FRAME_SIZE, old_end)\<close> linked between the node and its old successor,
  and with the node's end set to the new header address. If \<open>pmm_alloc\<close> returns null, or
  \<open>vmm_map\<close> fails, \<open>find_node\<close> returns the node all the same, and of the headers only the
  node's state has changed, to RESERVED.
\<close>

lemma find_node_splits:
  fixes sz s node passed
  defines "new \<equiv> node + sz + FRAME_SIZE"
  defines "nd \<equiv> node_mem s node"
  defines "phy \<equiv> fst (pmm_alloc s)"
  defines "s1 \<equiv> snd (pmm_alloc s)"
  defines "s2 \<equiv> snd (vmm_map new phy {PG_WRITABLE, PG_NO_EXEC} s1)"
  assumes walk: "find_node_passes sz s (heap_root s) passed node"
    and nz: "node \<noteq> 0" and mp: "vmm s node \<noteq> None"
    and fr: "node_state nd = HEAP_NODE_FREE"
    and fit: "sz \<le> node_end nd - node_start nd"
    and extra: "FRAME_SIZE * 2 \<le> node_end nd - node_start nd - sz"
  shows
    "(phy \<noteq> 0 \<and> fst (vmm_map new phy {PG_WRITABLE, PG_NO_EXEC} s1) \<and>
      new \<noteq> node \<and> node_next nd \<noteq> node \<and> node_next nd \<noteq> new \<and>
      (node_next nd \<noteq> 0 \<longrightarrow> vmm s (node_next nd) \<noteq> None) \<longrightarrow>
        find_node sz s = Some (Inr (node, s2\<lparr>node_mem :=
          (let m = (node_mem s)
               (new := \<lparr>node_next = node_next nd, node_prev = node,
                        node_state = HEAP_NODE_FREE,
                        node_start = node + sz + FRAME_SIZE * 2, node_end = node_end nd\<rparr>,
                node := nd\<lparr>node_end := new, node_next := new,
                           node_state := HEAP_NODE_RESERVED\<rparr>)
           in if node_next nd = 0 then m
              else m(node_next nd := (node_mem s (node_next nd))\<lparr>node_prev := new\<rparr>))\<rparr>))) \<and>
     (phy = 0 \<longrightarrow>
        find_node sz s = Some (Inr (node, s1\<lparr>node_mem :=
          (node_mem s)(node := nd\<lparr>node_state := HEAP_NODE_RESERVED\<rparr>)\<rparr>))) \<and>
     (phy \<noteq> 0 \<and> \<not> fst (vmm_map new phy {PG_WRITABLE, PG_NO_EXEC} s1) \<longrightarrow>
        find_node sz s = Some (Inr (node, s2\<lparr>node_mem :=
          (node_mem s)(node := nd\<lparr>node_state := HEAP_NODE_RESERVED\<rparr>)\<rparr>)))"
proof -
  have start: "find_node sz s = Some
     (bind_f (find_node_split sz node s) (\<lambda>s1.
      bind_f (store node (\<lambda>n. n\<lparr>node_state := HEAP_NODE_RESERVED\<rparr>) s1) (\<lambda>s2.
      Inr (node, s2))))"
    using find_node_from_passes [OF walk] find_node_from_fit [of node s sz] nz mp fr fit extra
    by (simp add: find_node_def nd_def)
  have A: "find_node sz s = Some (Inr (node, s1\<lparr>node_mem :=
          (node_mem s)(node := nd\<lparr>node_state := HEAP_NODE_RESERVED\<rparr>)\<rparr>))" if "phy = 0"
    using that mp unfolding start phy_def s1_def nd_def
    by (simp add: split_no_frame bind_f_def store_def pmm_alloc_keeps)
  have B: "find_node sz s = Some (Inr (node, s2\<lparr>node_mem :=
          (node_mem s)(node := nd\<lparr>node_state := HEAP_NODE_RESERVED\<rparr>)\<rparr>))"
    if "phy \<noteq> 0" "\<not> fst (vmm_map new phy {PG_WRITABLE, PG_NO_EXEC} s1)"
    using that mp unfolding start phy_def s1_def s2_def nd_def new_def
    by (simp add: split_no_map bind_f_def store_def pmm_alloc_keeps vmm_map_fail_keeps)
  have C: "find_node sz s = Some (Inr (node, s2\<lparr>node_mem :=
          (let m = (node_mem s)
               (new := \<lparr>node_next = node_next nd, node_prev = node,
                        node_state = HEAP_NODE_FREE,
                        node_start = node + sz + FRAME_SIZE * 2, node_end = node_end nd\<rparr>,
                node := nd\<lparr>node_end := new, node_next := new,
                           node_state := HEAP_NODE_RESERVED\<rparr>)
           in if node_next nd = 0 then m
              else m(node_next nd := (node_mem s (node_next nd))\<lparr>node_prev := new\<rparr>))\<rparr>))"
    if ok: "phy \<noteq> 0" "fst (vmm_map new phy {PG_WRITABLE, PG_NO_EXEC} s1)"
      and dist: "new \<noteq> node" "node_next nd \<noteq> node" "node_next nd \<noteq> new"
      and mnx: "node_next nd \<noteq> 0 \<longrightarrow> vmm s (node_next nd) \<noteq> None"
  proof -
    have v2: "vmm s2 node \<noteq> None"
      using ok(2) mp dist(1) unfolding s2_def s1_def
      by (simp add: vmm_map_ok pmm_alloc_keeps)
    have sp: "find_node_split sz node s =
       Inr (s2\<lparr>node_mem :=
        (let m = (node_mem s)
             (new := \<lparr>node_next = node_next nd, node_prev = node, node_state = HEAP_NODE_FREE,
                      node_start = node + sz + FRAME_SIZE * 2, node_end = node_end nd\<rparr>,
              node := nd\<lparr>node_end := new, node_next := new\<rparr>)
         in if node_next nd = 0 then m
            else m(node_next nd := (node_mem s (node_next nd))\<lparr>node_prev := new\<rparr>))\<rparr>)"
      using split_ok [of s node sz] mp ok dist mnx
      unfolding new_def nd_def phy_def s1_def s2_def by simp
    show ?thesis
      unfolding start sp using v2 dist
      by (auto simp: bind_f_def store_def Let_def fun_eq_iff)
  qed
  from A B C show ?thesis by blast
qed

lemma find_node_splits_example:
  "find_node_passes 0x2000 (ex_two [0x3000] []) (heap_root (ex_two [0x3000] []))
     [0x200000] 0x205000 \<and>
   (\<exists>s'. find_node 0x1000 ex_sound = Some (Inr (0x200000, s')) \<and>
      node_mem s' 0x200000 = ex_node 0x202000 0 HEAP_NODE_RESERVED 0x201000 0x202000 \<and>
      node_mem s' 0x202000 = ex_node 0x206000 0x200000 HEAP_NODE_FREE 0x203000 0x206000 \<and>
      node_mem s' 0x206000 = ex_node 0 0x202000 HEAP_NODE_RESERVED 0x207000 0x211000 \<and>
      vmm s' 0x202000 = Some (0x8000, {PG_WRITABLE, PG_NO_EXEC})) \<and>
   (\<exists>s'. find_node 0x2000 (ex_two [0x3000] []) = Some (Inr (0x205000, s')) \<and>
      node_mem s' 0x208000 =
        \<lparr>node_next = 0, node_prev = 0x205000, node_state = HEAP_NODE_FREE,
         node_start = 0x209000, node_end = 0x211000\<rparr> \<and>
      node_mem s' 0x205000 =
        \<lparr>node_next = 0x208000, node_prev = 0x200000, node_state = HEAP_NODE_RESERVED,
         node_start = 0x206000, node_end = 0x208000\<rparr> \<and>
      vmm s' 0x208000 = Some (0x3000, {PG_WRITABLE, PG_NO_EXEC})) \<and>
   (\<exists>s'. find_node 0x2000 (ex_two [] []) = Some (Inr (0x205000, s')) \<and>
      node_mem s' 0x205000 =
        \<lparr>node_next = 0, node_prev = 0x200000, node_state = HEAP_NODE_RESERVED,
         node_start = 0x206000, node_end = 0x211000\<rparr> \<and>
      vmm s' 0x208000 = None) \<and>
   (\<exists>s'. find_node 0x2000 (ex_two [0x3000] [False]) = Some (Inr (0x205000, s')) \<and>
      node_mem s' 0x205000 =
        \<lparr>node_next = 0, node_prev = 0x200000, node_state = HEAP_NODE_RESERVED,
         node_start = 0x206000, node_end = 0x211000\<rparr> \<and>
      vmm s' 0x208000 = None \<and> pmm_script s' = [] \<and> pmm_freed s' = [])"
proof -
  have w: "find_node_passes 0x2000 (ex_two fs ms) (heap_root (ex_two fs ms))
      [0x200000] 0x205000" for fs ms
    by (simp add: ex_two_def HEAP_NODE_FREE_def HEAP_NODE_RESERVED_def)
  have nz: "(0x205000 :: addr) \<noteq> 0"
    by simp
  have mp: "vmm (ex_two fs ms) 0x205000 \<noteq> None" for fs ms
    by (simp add: ex_two_def)
  have fr: "node_state (node_mem (ex_two fs ms) 0x205000) = HEAP_NODE_FREE" for fs ms
    by (simp add: ex_two_def)
  have fit: "0x2000 \<le> node_end (node_mem (ex_two fs ms) 0x205000)
      - node_start (node_mem (ex_two fs ms) 0x205000)" for fs ms
    by (simp add: ex_two_def)
  have extra: "FRAME_SIZE * 2 \<le> node_end (node_mem (ex_two fs ms) 0x205000)
      - node_start (node_mem (ex_two fs ms) 0x205000) - 0x2000" for fs ms
    by (simp add: ex_two_def FRAME_SIZE_def)
  note T = find_node_splits [where sz = "0x2000" and passed = "[0x200000]"
      and node = "0x205000", OF w nz mp fr fit extra]
  have A: "\<exists>s'. find_node 0x2000 (ex_two [0x3000] []) = Some (Inr (0x205000, s')) \<and>
      node_mem s' 0x208000 =
        \<lparr>node_next = 0, node_prev = 0x205000, node_state = HEAP_NODE_FREE,
         node_start = 0x209000, node_end = 0x211000\<rparr> \<and>
      node_mem s' 0x205000 =
        \<lparr>node_next = 0x208000, node_prev = 0x200000, node_state = HEAP_NODE_RESERVED,
         node_start = 0x206000, node_end = 0x208000\<rparr> \<and>
      vmm s' 0x208000 = Some (0x3000, {PG_WRITABLE, PG_NO_EXEC})"
    using T [of "[0x3000]" "[]"] by (simp add: ex_two_def heap_ops Let_def)
  have B: "\<exists>s'. find_node 0x2000 (ex_two [] []) = Some (Inr (0x205000, s')) \<and>
      node_mem s' 0x205000 =
        \<lparr>node_next = 0, node_prev = 0x200000, node_state = HEAP_NODE_RESERVED,
         node_start = 0x206000, node_end = 0x211000\<rparr> \<and>
      vmm s' 0x208000 = None"
    using T [of "[]" "[]"] by (simp add: ex_two_def heap_ops Let_def)
  have C: "\<exists>s'. find_node 0x2000 (ex_two [0x3000] [False]) = Some (Inr (0x205000, s')) \<and>
      node_mem s' 0x205000 =
        \<lparr>node_next = 0, node_prev = 0x200000, node_state = HEAP_NODE_RESERVED,
         node_start = 0x206000, node_end = 0x211000\<rparr> \<and>
      vmm s' 0x208000 = None \<and> pmm_script s' = [] \<and> pmm_freed s' = []"
    using T [of "[0x3000]" "[False]"] by (simp add: ex_two_def heap_ops Let_def)
  have S: "\<exists>s'. find_node 0x1000 ex_sound = Some (Inr (0x200000, s')) \<and>
      node_mem s' 0x200000 = ex_node 0x202000 0 HEAP_NODE_RESERVED 0x201000 0x202000 \<and>
      node_mem s' 0x202000 = ex_node 0x206000 0x200000 HEAP_NODE_FREE 0x203000 0x206000 \<and>
      node_mem s' 0x206000 = ex_node 0 0x202000 HEAP_NODE_RESERVED 0x207000 0x211000 \<and>
      vmm s' 0x202000 = Some (0x8000, {PG_WRITABLE, PG_NO_EXEC})"
    using find_node_splits [where sz = "0x1000" and passed = "[]" and node = "0x200000"
        and s = ex_sound]
    by (simp add: ex_sound_def ex_heap_def ex_node_def heap_ops Let_def)
  from w A B C S show ?thesis
    by blast
qed

section \<open>The claims\<close>

subsection \<open>Kernel heap\<close>

text \<open>
  C1. The claim asks that freeing an ALLOCATED node between two FREE neighbours leave one
  FREE node over the three ranges and return the header frames of both absorbed nodes. The
  node at \<open>0x203000\<close> is such a node. After \<open>heap_free\<close> of its payload pointer the node at
  \<open>0x200000\<close> is FREE, ends where the last node ended and has no successor; the two payload
  frames and the header frame \<open>0x3000\<close> of the next node have gone back to \<open>pmm\<close>. The second
  coalescing block unmaps \<open>next\<close> once more instead of the freed node: \<open>vmm_unmap\<close> returns
  null, \<open>pmm_free\<close> is handed that null, and the freed node's header page \<open>0x203000\<close> stays
  mapped on the frame \<open>0x2000\<close>, which is never returned.
\<close>

theorem heap_free_keeps_absorbed_header:
  "\<exists>s'. heap_free 0x204000 ex_three = Some (Inr s') \<and>
     node_mem s' 0x200000 =
       \<lparr>node_next = 0, node_prev = 0, node_state = HEAP_NODE_FREE,
        node_start = 0x201000, node_end = 0x210000\<rparr> \<and>
     pmm_freed s' = [0xA000, 0xB000, 0x3000, 0] \<and>
     vmm s' 0x206000 = None \<and>
     vmm s' 0x203000 = Some (0x2000, {PG_WRITABLE, PG_NO_EXEC})"
  by (simp add: heap_free_def heap_free_inner_def ex_three_def heap_free_pages.simps
      heap_free_next_def heap_free_prev_def heap_ops)

text \<open>
  C2. The claim asks that a \<open>heap_alloc\<close> whose k-th \<open>pmm_alloc\<close> fails return null with the
  heap as before the call and k - 1 frames returned. The roll-back is \<open>_heap_free(node)\<close>,
  with the header pointer where \<open>_heap_free\<close> takes the payload pointer, so it works on the
  page below the header. On a fresh heap of two pages, with the second \<open>pmm_alloc\<close> failing,
  that page is not mapped and the call faults. On a heap whose first node is ALLOCATED, it is
  that node's last payload page: the call returns null. Either way no frame has been
  returned, the first payload page of the chosen node is still mapped, and the node is left
  ALLOCATED.
\<close>

theorem heap_alloc_rollback_misses_node:
  "(\<exists>s'. heap_alloc 0x2000 {HEAP_W} ex_fresh = Some (Inl (Page_fault 0x1FF000, s')) \<and>
      pmm_freed s' = [] \<and>
      vmm s' 0x201000 = Some (0x2000, {PG_WRITABLE, PG_NO_EXEC}) \<and>
      node_state (node_mem s' 0x200000) = HEAP_NODE_ALLOCATED) \<and>
   (\<exists>s'. heap_alloc 0x2000 {HEAP_W} ex_pair = Some (Inr (0, s')) \<and>
      pmm_freed s' = [] \<and>
      vmm s' 0x206000 = Some (0x5000, {PG_WRITABLE, PG_NO_EXEC}) \<and>
      node_state (node_mem s' 0x205000) = HEAP_NODE_ALLOCATED)"
proof (intro conjI)
  show "\<exists>s'. heap_alloc 0x2000 {HEAP_W} ex_fresh = Some (Inl (Page_fault 0x1FF000, s')) \<and>
      pmm_freed s' = [] \<and>
      vmm s' 0x201000 = Some (0x2000, {PG_WRITABLE, PG_NO_EXEC}) \<and>
      node_state (node_mem s' 0x200000) = HEAP_NODE_ALLOCATED"
    by (auto simp: heap_alloc_def heap_alloc_inner_def find_node_def find_node_from.simps
        heap_alloc_pages.simps heap_alloc_rollback_def heap_free_inner_def PAGE_ALIGN_def
        ex_fresh_def heap_ops)
  show "\<exists>s'. heap_alloc 0x2000 {HEAP_W} ex_pair = Some (Inr (0, s')) \<and>
      pmm_freed s' = [] \<and>
      vmm s' 0x206000 = Some (0x5000, {PG_WRITABLE, PG_NO_EXEC}) \<and>
      node_state (node_mem s' 0x205000) = HEAP_NODE_ALLOCATED"
    by (auto simp: heap_alloc_def heap_alloc_inner_def find_node_def find_node_from.simps
        heap_alloc_pages.simps heap_alloc_rollback_def heap_free_inner_def PAGE_ALIGN_def
        heap_free_next_def heap_free_prev_def ex_pair_def ex_blank_def heap_ops)
qed

text \<open>
  C3. The claim asks that, whenever \<open>find_node\<close> selects a FREE node with
  \<open>extra >= 2 * FRAME_SIZE\<close> and a frame can be allocated and mapped at
  \<open>node + size + FRAME_SIZE\<close>, the new node be spliced in. Five calls lead a fresh heap of
  sixteen pages to \<open>ex_free_b\<close>, where the root is FREE with five pages and its successor's
  header is not mapped: the second \<open>heap_free\<close> merged B into A and unmapped the header of
  the live node C instead of B's. A request of one page then selects the root with
  \<open>extra = 4 * FRAME_SIZE\<close>, \<open>pmm_alloc\<close> returns the frame \<open>0x8000\<close> and \<open>vmm_map\<close> maps it
  at \<open>0x202000\<close>, and the splice faults at \<open>next->next->prev = next\<close> on \<open>0x206000\<close>: no
  node is returned, and the root is left FREE and cut down to one page.
\<close>

theorem find_node_splice_faults:
  "heap_alloc 0x2000 {HEAP_W} ex_boot = Some (Inr (0x201000, ex_alloc_a)) \<and>
   heap_alloc 0x2000 {HEAP_W} ex_alloc_a = Some (Inr (0x204000, ex_alloc_b)) \<and>
   heap_reserve 0x9000 ex_alloc_b = Some (Inr (0x207000, ex_reserve_c)) \<and>
   heap_free 0x201000 ex_reserve_c = Some (Inr ex_free_a) \<and>
   heap_free 0x204000 ex_free_a = Some (Inr ex_free_b) \<and>
   heap_root ex_free_b = 0x200000 \<and>
   vmm ex_free_b 0x200000 = Some (0x1000, {PG_WRITABLE, PG_NO_EXEC}) \<and>
   node_mem ex_free_b 0x200000 = ex_node 0x206000 0 HEAP_NODE_FREE 0x201000 0x206000 \<and>
   FRAME_SIZE * 2 \<le> (0x206000 - 0x201000) - 0x1000 \<and>
   pmm_alloc ex_free_b = (0x8000, ex_free_b\<lparr>pmm_script := []\<rparr>) \<and>
   fst (vmm_map (0x200000 + 0x1000 + FRAME_SIZE) 0x8000 {PG_WRITABLE, PG_NO_EXEC}
          (ex_free_b\<lparr>pmm_script := []\<rparr>)) \<and>
   vmm ex_free_b 0x206000 = None \<and>
   find_node 0x1000 ex_free_b = Some (Inl (Page_fault 0x206000, ex_fault)) \<and>
   heap_reserve 0x1000 ex_free_b = Some (Inl (Page_fault 0x206000, ex_fault)) \<and>
   heap_alloc 0x1000 {HEAP_W} ex_free_b = Some (Inl (Page_fault 0x206000, ex_fault))"
proof (intro conjI)
  show "heap_alloc 0x2000 {HEAP_W} ex_boot = Some (Inr (0x201000, ex_alloc_a))"
    by (simp add: ex_boot_def ex_alloc_a_def heap_eval Let_def fun_eq_iff insert_commute)
  show "heap_alloc 0x2000 {HEAP_W} ex_alloc_a = Some (Inr (0x204000, ex_alloc_b))"
    by (simp add: ex_alloc_a_def ex_alloc_b_def heap_eval Let_def fun_eq_iff insert_commute)
  show "heap_reserve 0x9000 ex_alloc_b = Some (Inr (0x207000, ex_reserve_c))"
    by (simp add: ex_alloc_b_def ex_reserve_c_def heap_eval Let_def fun_eq_iff)
  show "heap_free 0x201000 ex_reserve_c = Some (Inr ex_free_a)"
    by (simp add: ex_reserve_c_def ex_free_a_def heap_eval Let_def fun_eq_iff)
  show "heap_free 0x204000 ex_free_a = Some (Inr ex_free_b)"
    by (simp add: ex_free_a_def ex_free_b_def heap_eval Let_def fun_eq_iff)
  show "heap_root ex_free_b = 0x200000"
    by (simp add: ex_free_b_def ex_heap_def)
  show "vmm ex_free_b 0x200000 = Some (0x1000, {PG_WRITABLE, PG_NO_EXEC})"
    by (simp add: ex_free_b_def ex_heap_def)
  show "node_mem ex_free_b 0x200000 = ex_node 0x206000 0 HEAP_NODE_FREE 0x201000 0x206000"
    by (simp add: ex_free_b_def ex_heap_def)
  show "FRAME_SIZE * 2 \<le> (0x206000 - 0x201000) - 0x1000"
    by (simp add: FRAME_SIZE_def)
  show "pmm_alloc ex_free_b = (0x8000, ex_free_b\<lparr>pmm_script := []\<rparr>)"
    by (simp add: ex_free_b_def ex_heap_def pmm_alloc_def)
  show "fst (vmm_map (0x200000 + 0x1000 + FRAME_SIZE) 0x8000 {PG_WRITABLE, PG_NO_EXEC}
          (ex_free_b\<lparr>pmm_script := []\<rparr>))"
    by (simp add: ex_free_b_def ex_heap_def vmm_map_def)
  show "vmm ex_free_b 0x206000 = None"
    by (simp add: ex_free_b_def ex_heap_def)
  show f: "find_node 0x1000 ex_free_b = Some (Inl (Page_fault 0x206000, ex_fault))"
    by (simp add: ex_free_b_def ex_fault_def heap_eval Let_def fun_eq_iff)
  show "heap_reserve 0x1000 ex_free_b = Some (Inl (Page_fault 0x206000, ex_fault))"
    by (simp add: heap_reserve_def heap_alloc_inner_def PAGE_ALIGN_def FRAME_SIZE_def f)
  show "heap_alloc 0x1000 {HEAP_W} ex_free_b = Some (Inl (Page_fault 0x206000, ex_fault))"
    by (simp add: heap_alloc_def heap_alloc_inner_def PAGE_ALIGN_def FRAME_SIZE_def f)
qed

subsection \<open>Dispatch\<close>

text \<open>
  C4. When three registrations of the handlers H1, H2, H3 on a vector V, made in that order,
  all succeed, the chain of V is H3, H2, H1 followed by what it held before, and a dispatch
  of V returns after having called the handlers of the chain in that order, H3 first; the
  only other call is the acknowledgement that precedes them when V calls for one.
\<close>

theorem dispatch_lifo:
  assumes r1: "intr_route_intr V H1 s = (True, s1)"
      and r2: "intr_route_intr V H2 s1 = (True, s2)"
      and r3: "intr_route_intr V H3 s2 = (True, s3)"
      and st: "state_id st = V"
  shows "intr_handlers s3 V = H3 # H2 # H1 # intr_handlers s V \<and>
         intr_dispatch c st s3 =
           Inr (s3\<lparr>trace := trace s3
                   @ (if V > FAULT31 c \<and> V \<noteq> SPURIOUS c then [Ic_ack V] else [])
                   @ map (\<lambda>h. Handler_call h V) (H3 # H2 # H1 # intr_handlers s V)\<rparr>)"
proof -
  have chain: "intr_handlers s3 V = H3 # H2 # H1 # intr_handlers s V"
    using intr_route_intr_True [OF r1] intr_route_intr_True [OF r2]
      intr_route_intr_True [OF r3] by simp
  show ?thesis
    using chain st
    by (simp add: intr_dispatch_def Let_def call_handlers_trace ic_ack_def emit_def)
qed

theorem dispatch_lifo_witness:
  "intr_route_intr 64 1 ex_idle = (True, ex_chain [True, True] [1]) \<and>
   intr_route_intr 64 2 (ex_chain [True, True] [1]) = (True, ex_chain [True] [2, 1]) \<and>
   intr_route_intr 64 3 (ex_chain [True] [2, 1]) = (True, ex_chain [] [3, 2, 1]) \<and>
   intr_handlers (ex_chain [] [3, 2, 1]) 64 = [3, 2, 1] \<and>
   intr_dispatch ex_consts \<lparr>state_id = 64\<rparr> (ex_chain [] [3, 2, 1]) =
     Inr ((ex_chain [] [3, 2, 1])
           \<lparr>trace := [Ic_ack 64, Handler_call 3 64, Handler_call 2 64, Handler_call 1 64]\<rparr>)"
proof -
  have r1: "intr_route_intr 64 1 ex_idle = (True, ex_chain [True, True] [1])"
    by (simp add: intr_route_intr_def intr_route_intr_inner_def malloc_def ex_idle_def
        ex_chain_def)
  have r2: "intr_route_intr 64 2 (ex_chain [True, True] [1]) = (True, ex_chain [True] [2, 1])"
    by (simp add: intr_route_intr_def intr_route_intr_inner_def malloc_def ex_chain_def)
  have r3: "intr_route_intr 64 3 (ex_chain [True] [2, 1]) = (True, ex_chain [] [3, 2, 1])"
    by (simp add: intr_route_intr_def intr_route_intr_inner_def malloc_def ex_chain_def)
  have st: "state_id \<lparr>state_id = 64\<rparr> = 64"
    by simp
  from dispatch_lifo [OF r1 r2 r3 st, of ex_consts] r1 r2 r3 show ?thesis
    by (simp add: ex_consts_def ex_idle_def ex_chain_def)
qed

text \<open>
  C5. A dispatch of a vector in the fault range (up to \<open>FAULT31\<close>) or of the spurious vector
  makes no call of \<open>ic_ack\<close>: the calls it makes are the handler calls of the chain. A
  dispatch of any other vector calls \<open>ic_ack\<close> once, with that vector, and this is its first
  call, before the handler calls. Both hold whether the dispatch returns or panics.
\<close>

theorem ack_policy:
  "(state_id st \<le> FAULT31 c \<or> state_id st = SPURIOUS c \<longrightarrow>
      trace (dispatch_end (intr_dispatch c st s)) =
        trace s @ map (\<lambda>h. Handler_call h (state_id st)) (intr_handlers s (state_id st))) \<and>
   (\<not> (state_id st \<le> FAULT31 c \<or> state_id st = SPURIOUS c) \<longrightarrow>
      trace (dispatch_end (intr_dispatch c st s)) =
        trace s @ Ic_ack (state_id st)
          # map (\<lambda>h. Handler_call h (state_id st)) (intr_handlers s (state_id st)))"
  by (auto simp: intr_dispatch_def Let_def dispatch_end_def call_handlers_trace ic_ack_def
        emit_def)

theorem ack_policy_witness:
  "trace (dispatch_end (intr_dispatch ex_consts \<lparr>state_id = 14\<rparr> (ex_routed 14))) =
     [Handler_call 7 14] \<and>
   trace (dispatch_end (intr_dispatch ex_consts \<lparr>state_id = 255\<rparr> (ex_routed 255))) =
     [Handler_call 7 255] \<and>
   trace (dispatch_end (intr_dispatch ex_consts \<lparr>state_id = 64\<rparr> (ex_routed 64))) =
     [Ic_ack 64, Handler_call 7 64]"
  using ack_policy [of "\<lparr>state_id = 14\<rparr>" ex_consts "ex_routed 14"]
    ack_policy [of "\<lparr>state_id = 255\<rparr>" ex_consts "ex_routed 255"]
    ack_policy [of "\<lparr>state_id = 64\<rparr>" ex_consts "ex_routed 64"]
  by (simp add: ex_consts_def ex_routed_def)

text \<open>
  C6. A dispatch of a vector whose chain is empty ends in \<open>panic\<close>, called with the format
  \<open>unhandled interrupt %d\<close> and the vector number; it does not return. No handler has been
  called by then: the only call it can have made is the acknowledgement of that vector.
\<close>

theorem unhandled_panic:
  assumes "intr_handlers s (state_id st) = []"
  shows "\<exists>s'. intr_dispatch c st s =
            Inl (Panic (''unhandled interrupt %d'' @ [CHR 0x0A]) [state_id st], s') \<and>
          intr_handlers s' = intr_handlers s \<and>
          (\<exists>evs. trace s' = trace s @ evs \<and> set evs \<subseteq> {Ic_ack (state_id st)})"
  using assms by (auto simp: intr_dispatch_def Let_def ic_ack_def emit_def)

theorem unhandled_panic_witness:
  "intr_handlers ex_idle (state_id \<lparr>state_id = 64\<rparr>) = [] \<and>
   (\<exists>s'. intr_dispatch ex_consts \<lparr>state_id = 64\<rparr> ex_idle =
            Inl (Panic (''unhandled interrupt %d'' @ [CHR 0x0A]) [64], s'))"
  using unhandled_panic [of ex_idle "\<lparr>state_id = 64\<rparr>" ex_consts]
  by (auto simp: ex_idle_def)

subsection \<open>IRQ routing\<close>

text \<open>
  C7, as stated: \<open>intr_route_irq\<close> succeeds only if the line lies in some controller record's
  half-open range \<open>[irq_base, irq_base + irqs)\<close>. A record with \<open>irqs = 0\<close> owns no line,
  yet \<open>irq_last = irq_base + irqs - 1\<close> wraps around to the largest \<open>irq_t\<close>, the test passes
  line 5, and the call succeeds: handler 7 is registered on vector 37 and \<open>ioapic_route\<close> is
  called on that record.
\<close>

theorem route_irq_owner_counterexample:
  "\<not> (unat (irq_base ex_empty) \<le> unat (irq (ex_tuple 5)) \<and>
       unat (irq (ex_tuple 5)) < unat (irq_base ex_empty) + unat (irqs ex_empty)) \<and>
   intr_route_irq ex_consts [ex_empty] (ex_tuple 5) 7 ex_idle =
     (True, \<lparr>intr_handlers = (\<lambda>_. [])(37 := [7]), malloc_script = [True, True],
             trace = [Ioapic_route ex_empty (ex_tuple 5) 37]\<rparr>)"
  by (simp add: intr_route_irq_def Let_def irq_belongs_def intr_route_intr_inner_def
      malloc_def ioapic_route_def emit_def irq_vector_def ex_empty_def ex_tuple_def
      ex_idle_def ex_consts_def)

text \<open>
  C7, amended. With controller records that each own at least one line (\<open>irqs\<close> is not 0):
  when \<open>intr_route_irq\<close> returns true, some controller record's half-open range
  \<open>[irq_base, irq_base + irqs)\<close> contains the tuple's line, the handler has been put at the
  head of the chain of the vector \<open>(irq mod IRQS) + IRQ0\<close>, and \<open>ioapic_route\<close> has been
  called on that controller with the tuple and that vector, and nothing else has happened.
  When no controller's range contains the line, the call returns false and leaves the state
  as it was.
\<close>

theorem route_irq_owner:
  assumes wf: "\<forall>a\<in>set apics. irqs a \<noteq> 0"
  shows "(fst (intr_route_irq c apics t h s) \<longrightarrow>
           (\<exists>a\<in>set apics.
              unat (irq_base a) \<le> unat (irq t) \<and>
              unat (irq t) < unat (irq_base a) + unat (irqs a) \<and>
              snd (intr_route_irq c apics t h s) =
                s\<lparr>malloc_script := tl (malloc_script s),
                  intr_handlers := (intr_handlers s)
                    (unat (irq t) mod IRQS c + IRQ0 c :=
                       h # intr_handlers s (unat (irq t) mod IRQS c + IRQ0 c)),
                  trace := trace s
                    @ [Ioapic_route a t (unat (irq t) mod IRQS c + IRQ0 c)]\<rparr>)) \<and>
         ((\<forall>a\<in>set apics. \<not> (unat (irq_base a) \<le> unat (irq t) \<and>
                              unat (irq t) < unat (irq_base a) + unat (irqs a))) \<longrightarrow>
            intr_route_irq c apics t h s = (False, s))"
proof (intro conjI impI)
  assume ok: "fst (intr_route_irq c apics t h s)"
  let ?v = "unat (irq t) mod IRQS c + IRQ0 c"
  have v: "irq_vector c (irq t) = ?v"
    by (simp add: irq_vector_def)
  from ok obtain a where f: "find (\<lambda>a. irq_belongs a (irq t)) apics = Some a"
    by (cases "find (\<lambda>a. irq_belongs a (irq t)) apics")
       (auto simp: intr_route_irq_def Let_def route_loop_find)
  from find_Some_mem [OF f] have mem: "a \<in> set apics" and b: "irq_belongs a (irq t)"
    by simp_all
  from wf mem b have "owns_irq a (irq t)"
    by (simp add: belongs_owns)
  then have own: "unat (irq_base a) \<le> unat (irq t)"
      "unat (irq t) < unat (irq_base a) + unat (irqs a)"
    by (simp_all add: owns_irq_def)
  from ok f have m: "fst (intr_route_intr_inner ?v h s)"
    by (simp add: intr_route_irq_def Let_def route_loop_find v)
  then have "snd (intr_route_intr_inner ?v h s) =
      s\<lparr>malloc_script := tl (malloc_script s),
        intr_handlers := (intr_handlers s)(?v := h # intr_handlers s ?v)\<rparr>"
    by (auto simp: intr_route_intr_inner_def malloc_def split: list.splits if_splits)
  with f have "snd (intr_route_irq c apics t h s) =
      s\<lparr>malloc_script := tl (malloc_script s),
        intr_handlers := (intr_handlers s)(?v := h # intr_handlers s ?v),
        trace := trace s @ [Ioapic_route a t ?v]\<rparr>"
    by (simp add: intr_route_irq_def Let_def route_loop_find ioapic_route_def emit_def v)
  with mem own show "\<exists>a\<in>set apics.
      unat (irq_base a) \<le> unat (irq t) \<and>
      unat (irq t) < unat (irq_base a) + unat (irqs a) \<and>
      snd (intr_route_irq c apics t h s) =
        s\<lparr>malloc_script := tl (malloc_script s),
          intr_handlers := (intr_handlers s)(?v := h # intr_handlers s ?v),
          trace := trace s @ [Ioapic_route a t ?v]\<rparr>"
    by blast
next
  assume no: "\<forall>a\<in>set apics. \<not> (unat (irq_base a) \<le> unat (irq t) \<and>
      unat (irq t) < unat (irq_base a) + unat (irqs a))"
  have "find (\<lambda>a. irq_belongs a (irq t)) apics = None"
  proof (cases "find (\<lambda>a. irq_belongs a (irq t)) apics")
    case None
    then show ?thesis .
  next
    case (Some a)
    from find_Some_mem [OF Some] wf have "owns_irq a (irq t)" "a \<in> set apics"
      by (simp_all add: belongs_owns)
    with no show ?thesis
      by (auto simp: owns_irq_def)
  qed
  then show "intr_route_irq c apics t h s = (False, s)"
    by (simp add: intr_route_irq_def Let_def route_loop_find)
qed

theorem route_irq_owner_witness:
  "irqs ex_apic \<noteq> 0 \<and> irqs ex_apic_hi \<noteq> 0 \<and>
   fst (intr_route_irq ex_consts [ex_apic, ex_apic_hi] (ex_tuple 300) 7 (ex_on 108 [5] [True])) \<and>
   unat (irq_base ex_apic_hi) \<le> unat (irq (ex_tuple 300)) \<and>
   unat (irq (ex_tuple 300)) < unat (irq_base ex_apic_hi) + unat (irqs ex_apic_hi) \<and>
   snd (intr_route_irq ex_consts [ex_apic, ex_apic_hi] (ex_tuple 300) 7 (ex_on 108 [5] [True])) =
     \<lparr>intr_handlers = (\<lambda>_. [])(108 := [7, 5]), malloc_script = [],
      trace = [Ioapic_route ex_apic_hi (ex_tuple 300) 108]\<rparr> \<and>
   \<not> (unat (irq_base ex_apic) \<le> unat (irq (ex_tuple 400)) \<and>
       unat (irq (ex_tuple 400)) < unat (irq_base ex_apic) + unat (irqs ex_apic)) \<and>
   \<not> (unat (irq_base ex_apic_hi) \<le> unat (irq (ex_tuple 400)) \<and>
       unat (irq (ex_tuple 400)) < unat (irq_base ex_apic_hi) + unat (irqs ex_apic_hi)) \<and>
   intr_route_irq ex_consts [ex_apic, ex_apic_hi] (ex_tuple 400) 7 (ex_on 108 [5] [True]) =
     (False, ex_on 108 [5] [True])"
proof -
  let ?apics = "[ex_apic, ex_apic_hi]" and ?s = "ex_on 108 [5] [True]"
  have wf: "\<forall>a\<in>set ?apics. irqs a \<noteq> 0"
    by (simp add: ex_apic_def ex_apic_hi_def)
  have ok: "fst (intr_route_irq ex_consts ?apics (ex_tuple 300) 7 ?s)"
    by (simp add: intr_route_irq_def Let_def irq_belongs_def intr_route_intr_inner_def
        malloc_def ex_apic_def ex_apic_hi_def ex_tuple_def ex_on_def)
  have no: "\<forall>a\<in>set ?apics. \<not> (unat (irq_base a) \<le> unat (irq (ex_tuple 400)) \<and>
      unat (irq (ex_tuple 400)) < unat (irq_base a) + unat (irqs a))"
    by (simp add: ex_apic_def ex_apic_hi_def ex_tuple_def)
  have own: "unat (irq_base ex_apic_hi) \<le> unat (irq (ex_tuple 300)) \<and>
      unat (irq (ex_tuple 300)) < unat (irq_base ex_apic_hi) + unat (irqs ex_apic_hi)"
    by (simp add: ex_apic_hi_def ex_tuple_def)
  have notlo: "\<not> unat (irq (ex_tuple 300)) < unat (irq_base ex_apic) + unat (irqs ex_apic)"
    by (simp add: ex_apic_def ex_tuple_def)
  from route_irq_owner [OF wf, of ex_consts "ex_tuple 300" 7 ?s] ok
  obtain a where a: "a \<in> set ?apics"
      "unat (irq (ex_tuple 300)) < unat (irq_base a) + unat (irqs a)"
      "snd (intr_route_irq ex_consts ?apics (ex_tuple 300) 7 ?s) =
         ?s\<lparr>malloc_script := tl (malloc_script ?s),
            intr_handlers := (intr_handlers ?s)
              (unat (irq (ex_tuple 300)) mod IRQS ex_consts + IRQ0 ex_consts :=
                 7 # intr_handlers ?s (unat (irq (ex_tuple 300)) mod IRQS ex_consts
                                         + IRQ0 ex_consts)),
            trace := trace ?s
              @ [Ioapic_route a (ex_tuple 300)
                   (unat (irq (ex_tuple 300)) mod IRQS ex_consts + IRQ0 ex_consts)]\<rparr>"
    by blast
  from a(1,2) notlo have "a = ex_apic_hi"
    by auto
  with a(3) have res: "snd (intr_route_irq ex_consts ?apics (ex_tuple 300) 7 ?s) =
     \<lparr>intr_handlers = (\<lambda>_. [])(108 := [7, 5]), malloc_script = [],
      trace = [Ioapic_route ex_apic_hi (ex_tuple 300) 108]\<rparr>"
    by (simp add: ex_on_def ex_tuple_def ex_consts_def)
  from route_irq_owner [OF wf, of ex_consts "ex_tuple 400" 7 ?s] no
  have "intr_route_irq ex_consts ?apics (ex_tuple 400) 7 ?s = (False, ?s)"
    by blast
  with wf ok own res no show ?thesis
    by simp
qed

text \<open>
  C8, as stated: when no controller's range contains the line, \<open>intr_unroute_irq\<close> calls no
  \<open>ioapic_mask\<close> and leaves the handler chains unchanged. Line 300 belongs to no controller,
  and the call still unlinks the first node holding handler 7 from the chain of vector 108,
  where a vector-only registration or a colliding line had put it. And line 5 lies in no range
  of a record with \<open>irqs = 0\<close>, whose \<open>irq_last\<close> wraps around: the line is masked there.
\<close>

theorem unroute_unowned_counterexample:
  "\<not> (unat (irq_base ex_apic) \<le> unat (irq (ex_tuple 300)) \<and>
       unat (irq (ex_tuple 300)) < unat (irq_base ex_apic) + unat (irqs ex_apic)) \<and>
   intr_handlers (ex_on 108 [5, 7, 6, 7] []) 108 = [5, 7, 6, 7] \<and>
   intr_handlers
     (intr_unroute_irq ex_consts [ex_apic] (ex_tuple 300) 7 (ex_on 108 [5, 7, 6, 7] [])) 108 =
     [5, 6, 7] \<and>
   \<not> (unat (irq_base ex_empty) \<le> unat (irq (ex_tuple 5)) \<and>
       unat (irq (ex_tuple 5)) < unat (irq_base ex_empty) + unat (irqs ex_empty)) \<and>
   trace (ex_on 37 [] []) = [] \<and>
   trace (intr_unroute_irq ex_consts [ex_empty] (ex_tuple 5) 7 (ex_on 37 [] [])) =
     [Ioapic_mask ex_empty (ex_tuple 5)]"
  by (simp add: intr_unroute_irq_def intr_unroute_intr_inner_def irq_belongs_def
      irq_vector_def ioapic_mask_def emit_def ex_apic_def ex_empty_def ex_tuple_def ex_on_def
      ex_consts_def)

text \<open>
  C8, amended. With controller records that each own at least one line (\<open>irqs\<close> is not 0),
  and a tuple whose line no controller's range \<open>[irq_base, irq_base + irqs)\<close> contains:
  \<open>intr_unroute_irq\<close> calls nothing (no \<open>ioapic_mask\<close>), and the only thing it changes is
  the chain of the vector \<open>(irq mod IRQS) + IRQ0\<close>, from which the first node holding the
  handler, counted from the head, is unlinked: a chain \<open>before @ h # after\<close> with \<open>h\<close> not
  in \<open>before\<close> becomes \<open>before @ after\<close>. When the handler is not in that chain, the call
  leaves the state as it was.
\<close>

theorem unroute_unowned:
  assumes wf: "\<forall>a\<in>set apics. irqs a \<noteq> 0"
      and no: "\<forall>a\<in>set apics. \<not> (unat (irq_base a) \<le> unat (irq t) \<and>
                                  unat (irq t) < unat (irq_base a) + unat (irqs a))"
  shows "intr_unroute_irq c apics t h s =
           s\<lparr>intr_handlers := (intr_handlers s)
               (unat (irq t) mod IRQS c + IRQ0 c :=
                  remove1 h (intr_handlers s (unat (irq t) mod IRQS c + IRQ0 c)))\<rparr> \<and>
         trace (intr_unroute_irq c apics t h s) = trace s \<and>
         (\<forall>before after.
            intr_handlers s (unat (irq t) mod IRQS c + IRQ0 c) = before @ h # after \<and>
            h \<notin> set before \<longrightarrow>
            intr_handlers (intr_unroute_irq c apics t h s) (unat (irq t) mod IRQS c + IRQ0 c) =
              before @ after) \<and>
         (h \<notin> set (intr_handlers s (unat (irq t) mod IRQS c + IRQ0 c)) \<longrightarrow>
            intr_unroute_irq c apics t h s = s)"
proof -
  let ?v = "unat (irq t) mod IRQS c + IRQ0 c"
  have "\<not> irq_belongs a (irq t)" if "a \<in> set apics" for a
  proof
    assume "irq_belongs a (irq t)"
    with wf that have "owns_irq a (irq t)"
      by (simp add: belongs_owns)
    with no that show False
      by (auto simp: owns_irq_def)
  qed
  then have "filter (\<lambda>a. irq_belongs a (irq t)) apics = []"
    by (simp add: filter_empty_conv)
  then have "intr_unroute_irq_loop apics t s = s"
    by (simp add: unroute_loop_trace)
  then have eq: "intr_unroute_irq c apics t h s =
      s\<lparr>intr_handlers := (intr_handlers s)(?v := remove1 h (intr_handlers s ?v))\<rparr>"
    by (simp add: intr_unroute_irq_def Let_def intr_unroute_intr_inner_def irq_vector_def
        unlink_handler_remove1)
  have "remove1 h (before @ h # after) = before @ after" if "h \<notin> set before"
    for before after
    using that by (simp add: remove1_append)
  with eq show ?thesis
    by (simp add: remove1_idem)
qed

theorem unroute_unowned_witness:
  "irqs ex_apic \<noteq> 0 \<and> irqs ex_apic_hi \<noteq> 0 \<and>
   \<not> (unat (irq_base ex_apic) \<le> unat (irq (ex_tuple 400)) \<and>
       unat (irq (ex_tuple 400)) < unat (irq_base ex_apic) + unat (irqs ex_apic)) \<and>
   \<not> (unat (irq_base ex_apic_hi) \<le> unat (irq (ex_tuple 400)) \<and>
       unat (irq (ex_tuple 400)) < unat (irq_base ex_apic_hi) + unat (irqs ex_apic_hi)) \<and>
   intr_unroute_irq ex_consts [ex_apic, ex_apic_hi] (ex_tuple 400) 7
       (ex_on 208 [5, 7, 6, 7] []) = ex_on 208 [5, 6, 7] [] \<and>
   intr_unroute_irq ex_consts [ex_apic, ex_apic_hi] (ex_tuple 400) 9
       (ex_on 208 [5, 7, 6, 7] []) = ex_on 208 [5, 7, 6, 7] []"
proof -
  let ?apics = "[ex_apic, ex_apic_hi]" and ?s = "ex_on 208 [5, 7, 6, 7] []"
  have wf: "\<forall>a\<in>set ?apics. irqs a \<noteq> 0"
    by (simp add: ex_apic_def ex_apic_hi_def)
  have no: "\<forall>a\<in>set ?apics. \<not> (unat (irq_base a) \<le> unat (irq (ex_tuple 400)) \<and>
      unat (irq (ex_tuple 400)) < unat (irq_base a) + unat (irqs a))"
    by (simp add: ex_apic_def ex_apic_hi_def ex_tuple_def)
  have v: "unat (irq (ex_tuple 400)) mod IRQS ex_consts + IRQ0 ex_consts = 208"
    by (simp add: ex_tuple_def ex_consts_def)
  from unroute_unowned [OF wf no, of ex_consts 7 ?s]
  have A: "intr_unroute_irq ex_consts ?apics (ex_tuple 400) 7 ?s = ex_on 208 [5, 6, 7] []"
    by (simp add: v) (simp add: ex_on_def)
  have ab: "9 \<notin> set (intr_handlers ?s
      (unat (irq (ex_tuple 400)) mod IRQS ex_consts + IRQ0 ex_consts))"
    by (simp add: v) (simp add: ex_on_def)
  from unroute_unowned [OF wf no, of ex_consts 9 ?s] ab
  have B: "intr_unroute_irq ex_consts ?apics (ex_tuple 400) 9 ?s = ?s"
    by blast
  from wf no A B show ?thesis
    by simp
qed

text \<open>
  C9. The claim asks that \<open>intr_unroute_irq\<close> mask the line at every controller that owns it
  before the handler leaves the chain. Line 23 is the last line of a controller that owns the
  lines 0 to 23; the test \<open>irq < irq_last\<close> passes it by, so unrouting the line takes handler 7
  off the chain of vector 55 without any call of \<open>ioapic_mask\<close>.
\<close>

theorem unroute_last_line_unmasked:
  "owns_irq ex_apic 23 \<and>
   intr_handlers (ex_routed 55) 55 = [7] \<and>
   intr_handlers (intr_unroute_irq ex_consts [ex_apic] (ex_tuple 23) 7 (ex_routed 55)) 55 = [] \<and>
   trace (intr_unroute_irq ex_consts [ex_apic] (ex_tuple 23) 7 (ex_routed 55)) = []"
  by (simp add: owns_irq_def intr_unroute_irq_def intr_unroute_intr_inner_def irq_belongs_def
      irq_vector_def ioapic_mask_def ex_apic_def ex_tuple_def ex_routed_def ex_consts_def)

text \<open>
  C10. When the loop of \<open>intr_route_irq\<close> finds a controller whose test the line passes, and
  the allocation of the chain node fails, the call returns false and the chains are as they
  were, yet \<open>ioapic_route\<close> has been called on that controller with the tuple and the vector
  \<open>(irq mod IRQS) + IRQ0\<close>.
\<close>

theorem route_irq_alloc_failure:
  assumes m: "find (\<lambda>a. irq_belongs a (irq t)) apics = Some a"
      and nomem: "\<not> fst (malloc s)"
  shows "fst (intr_route_irq c apics t h s) = False \<and>
         intr_handlers (snd (intr_route_irq c apics t h s)) = intr_handlers s \<and>
         trace (snd (intr_route_irq c apics t h s)) =
           trace s @ [Ioapic_route a t (irq_vector c (irq t))]"
  using assms
  by (auto simp: intr_route_irq_def Let_def route_loop_find intr_route_intr_inner_def
        ioapic_route_def emit_def malloc_def split: list.splits)

theorem route_irq_alloc_failure_witness:
  "find (\<lambda>a. irq_belongs a (irq (ex_tuple 1))) [ex_apic] = Some ex_apic \<and>
   \<not> fst (malloc (ex_routed 64)) \<and>
   fst (intr_route_irq ex_consts [ex_apic] (ex_tuple 1) 7 (ex_routed 64)) = False \<and>
   intr_handlers (snd (intr_route_irq ex_consts [ex_apic] (ex_tuple 1) 7 (ex_routed 64))) 33 = [] \<and>
   trace (snd (intr_route_irq ex_consts [ex_apic] (ex_tuple 1) 7 (ex_routed 64))) =
     [Ioapic_route ex_apic (ex_tuple 1) 33]"
proof -
  have m: "find (\<lambda>a. irq_belongs a (irq (ex_tuple 1))) [ex_apic] = Some ex_apic"
    by (simp add: irq_belongs_def ex_apic_def ex_tuple_def)
  have nomem: "\<not> fst (malloc (ex_routed 64))"
    by (simp add: malloc_def ex_routed_def)
  have v: "irq_vector ex_consts (irq (ex_tuple 1)) = 33"
    by (simp add: irq_vector_def ex_consts_def ex_tuple_def)
  from route_irq_alloc_failure [OF m nomem, of ex_consts 7] m nomem show ?thesis
    by (simp add: v) (simp add: ex_routed_def)
qed

end
